theory Spec2Isabelle
  imports Complex_Main
begin

section \<open>Errors as values\<close>

text \<open>
  Every \<^verbatim>\<open>raise\<close>, failed \<^verbatim>\<open>assert\<close> and library exception of
  \<^verbatim>\<open>simdltk/module/activation.py\<close> is a value \<open>Inl e\<close>; a call that returns is
  \<open>Inr r\<close>.
\<close>

datatype error =
    AssertionError
  | ZeroDivisionError
  | ValueError
  | IndexError
  | TypeError
  | AttributeError
  | RuntimeError
  | NotImplementedError

definition and_then :: "error + 'a \<Rightarrow> ('a \<Rightarrow> error + 'b) \<Rightarrow> error + 'b" where
  "and_then r f = (case r of Inl e \<Rightarrow> Inl e | Inr x \<Rightarrow> f x)"

section \<open>Tensors of the numeric library\<close>

text \<open>
  A tensor is its shape and its elements in row-major order, which is what
  \<^verbatim>\<open>.contiguous()\<close> produces before every \<^verbatim>\<open>view\<close> of the source. The module
  never writes into a tensor in place, so tensors are plain values. A tensor of the
  library always satisfies \<open>wf_tensor\<close>.
\<close>

record 'a tensor =
  shape :: "nat list"
  data :: "'a list"

definition wf_tensor :: "'a tensor \<Rightarrow> bool" where
  "wf_tensor t \<longleftrightarrow> length (data t) = prod_list (shape t)"

fun indices :: "nat list \<Rightarrow> nat list list" where
  "indices [] = [[]]"
| "indices (n # ns) = concat (map (\<lambda>i. map ((#) i) (indices ns)) [0..<n])"

fun flat_index :: "nat list \<Rightarrow> nat list \<Rightarrow> nat" where
  "flat_index [] idx = 0"
| "flat_index (n # ns) [] = 0"
| "flat_index (n # ns) (i # js) = i * prod_list ns + flat_index ns js"

definition elem :: "'a tensor \<Rightarrow> nat list \<Rightarrow> 'a" where
  "elem t idx = data t ! flat_index (shape t) idx"

definition build :: "nat list \<Rightarrow> (nat list \<Rightarrow> 'a) \<Rightarrow> 'a tensor" where
  "build shp f = \<lparr>shape = shp, data = map f (indices shp)\<rparr>"

text \<open>
  The scalar arithmetic of the library is a parameter: floating-point addition,
  multiplication, exponential and division, the value \<^verbatim>\<open>float('-inf')\<close>, Python's
  \<^verbatim>\<open>head_dim ** -0.5\<close>, and the effect of \<^verbatim>\<open>F.dropout\<close> on the element at a flat
  position (the identity when \<^verbatim>\<open>p = 0\<close> or the module is in evaluation mode, otherwise
  fixed by the random draw of the call). Every theorem below holds for every such
  arithmetic.
\<close>

record 'a backend =
  fadd :: "'a \<Rightarrow> 'a \<Rightarrow> 'a"
  fmul :: "'a \<Rightarrow> 'a \<Rightarrow> 'a"
  fzero :: "'a"
  fexp :: "'a \<Rightarrow> 'a"
  fdiv :: "'a \<Rightarrow> 'a \<Rightarrow> 'a"
  fneg_inf :: "'a"
  frsqrt :: "int \<Rightarrow> 'a"
  fdropout :: "nat \<Rightarrow> 'a \<Rightarrow> 'a"

subsection \<open>Shapes\<close>

text \<open>\<^verbatim>\<open>tgt_len, bsz, _ = query.size()\<close>: unpacking needs exactly three dimensions.\<close>

definition size3 :: "'a tensor \<Rightarrow> error + (nat \<times> nat \<times> nat)" where
  "size3 t = (case shape t of [a, b, c] \<Rightarrow> Inr (a, b, c) | _ \<Rightarrow> Inl ValueError)"

text \<open>\<^verbatim>\<open>t.size(d)\<close> for a non-negative \<open>d\<close>.\<close>

definition size_dim :: "'a tensor \<Rightarrow> nat \<Rightarrow> error + nat" where
  "size_dim t d = (if d < length (shape t) then Inr (shape t ! d) else Inl IndexError)"

text \<open>
  \<^verbatim>\<open>t.contiguous().view(*sizes)\<close>: at most one size is \<open>-1\<close> and is inferred from the
  number of elements; the sizes must account for exactly the elements of \<open>t\<close>.
\<close>

definition view :: "int list \<Rightarrow> 'a tensor \<Rightarrow> error + 'a tensor" where
  "view sizes t =
     (let n = int (prod_list (shape t));
          p = prod_list (filter (\<lambda>s. s \<noteq> - 1) sizes)
      in if list_ex (\<lambda>s. s < - 1) sizes then Inl RuntimeError
         else if 1 < length (filter (\<lambda>s. s = - 1) sizes) then Inl RuntimeError
         else if list_ex (\<lambda>s. s = - 1) sizes then
           (if p = 0 \<or> n mod p \<noteq> 0 then Inl RuntimeError
            else Inr \<lparr>shape = map (\<lambda>s. nat (if s = - 1 then n div p else s)) sizes,
                      data = data t\<rparr>)
         else if p \<noteq> n then Inl RuntimeError
         else Inr \<lparr>shape = map nat sizes, data = data t\<rparr>)"

text \<open>\<^verbatim>\<open>t.unsqueeze(d)\<close> for a non-negative \<open>d\<close>.\<close>

definition unsqueeze :: "nat \<Rightarrow> 'a tensor \<Rightarrow> error + 'a tensor" where
  "unsqueeze d t =
     (if d \<le> length (shape t)
      then Inr \<lparr>shape = take d (shape t) @ [1] @ drop d (shape t), data = data t\<rparr>
      else Inl IndexError)"

definition swap_dims :: "nat \<Rightarrow> nat \<Rightarrow> nat list \<Rightarrow> nat list" where
  "swap_dims d0 d1 xs = xs[d0 := xs ! d1, d1 := xs ! d0]"

text \<open>\<^verbatim>\<open>t.transpose(d0, d1)\<close>, with the elements brought back to row-major order.\<close>

definition transpose_t :: "nat \<Rightarrow> nat \<Rightarrow> 'a tensor \<Rightarrow> error + 'a tensor" where
  "transpose_t d0 d1 t =
     (if d0 < length (shape t) \<and> d1 < length (shape t)
      then Inr (build (swap_dims d0 d1 (shape t)) (\<lambda>idx. elem t (swap_dims d0 d1 idx)))
      else Inl IndexError)"

text \<open>
  \<^verbatim>\<open>torch.cat(ts, dim=d)\<close>: the tensors agree in rank and in every dimension but
  \<open>d\<close>; for each position of the leading dimensions the slices of the tensors follow
  one another.
\<close>

definition cat_slice :: "nat \<Rightarrow> nat \<Rightarrow> 'a tensor \<Rightarrow> 'a list" where
  "cat_slice d k t =
     (let c = prod_list (drop d (shape t)) in take c (drop (k * c) (data t)))"

definition cat :: "'a tensor list \<Rightarrow> nat \<Rightarrow> error + 'a tensor" where
  "cat ts d =
     (case ts of
        [] \<Rightarrow> Inl RuntimeError
      | t # us \<Rightarrow>
          if length (shape t) \<le> d then Inl IndexError
          else if list_ex (\<lambda>u. length (shape u) \<noteq> length (shape t)
                              \<or> (shape u)[d := 0] \<noteq> (shape t)[d := 0]) us
          then Inl RuntimeError
          else Inr \<lparr>shape = (shape t)[d := sum_list (map (\<lambda>u. shape u ! d) ts)],
                    data = concat (map (\<lambda>k. concat (map (cat_slice d k) ts))
                                    [0..<prod_list (take d (shape t))])\<rparr>)"

text \<open>
  \<^verbatim>\<open>torch.chunk(t, k, dim=0)\<close>: pieces of \<open>\<lceil>n / k\<rceil>\<close> rows, the last one
  shorter when \<open>k\<close> does not divide the number of rows, so that fewer than \<open>k\<close> pieces
  may come back; a dimension of size 0 gives \<open>k\<close> empty pieces.
\<close>

definition chunk :: "'a tensor \<Rightarrow> nat \<Rightarrow> error + 'a tensor list" where
  "chunk t k =
     (case shape t of
        [] \<Rightarrow> Inl RuntimeError
      | n # rest \<Rightarrow>
          (let ss = (n + k - 1) div k; r = prod_list rest
           in if n = 0 then Inr (replicate k t)
              else Inr (map (\<lambda>i. \<lparr>shape = min ss (n - i * ss) # rest,
                                   data = take (min ss (n - i * ss) * r)
                                            (drop (i * ss * r) (data t))\<rparr>)
                         [0..<(n + ss - 1) div ss])))"

text \<open>
  \<^verbatim>\<open>a, b, c = torch.chunk(x, 3, dim=0)\<close>, where \<open>x\<close> may be \<^verbatim>\<open>None\<close> (a module
  built with \<^verbatim>\<open>bias=False\<close> has \<^verbatim>\<open>in_proj_bias = None\<close>).
\<close>

definition chunk3 :: "'a tensor option \<Rightarrow> error + ('a tensor \<times> 'a tensor \<times> 'a tensor)" where
  "chunk3 x =
     (case x of
        None \<Rightarrow> Inl TypeError
      | Some t \<Rightarrow>
          and_then (chunk t 3)
            (\<lambda>cs. case cs of [a, b, c] \<Rightarrow> Inr (a, b, c) | _ \<Rightarrow> Inl ValueError))"

subsection \<open>Broadcasting\<close>

definition broadcast_shapes :: "nat list \<Rightarrow> nat list \<Rightarrow> error + nat list" where
  "broadcast_shapes a b =
     (let r = max (length a) (length b);
          a' = replicate (r - length a) 1 @ a;
          b' = replicate (r - length b) 1 @ b
      in if list_all (\<lambda>(x, y). x = y \<or> x = 1 \<or> y = 1) (zip a' b')
         then Inr (map (\<lambda>(x, y). if x = 1 then y else x) (zip a' b'))
         else Inl RuntimeError)"

text \<open>The index into a tensor of shape \<open>shp\<close> that an index of the broadcast result reads.\<close>

definition bidx :: "nat list \<Rightarrow> nat list \<Rightarrow> nat list" where
  "bidx shp idx =
     map (\<lambda>(n, i). if n = 1 then 0 else i) (zip shp (drop (length idx - length shp) idx))"

text \<open>\<^verbatim>\<open>a + b\<close> on tensors.\<close>

definition add_t :: "'a backend \<Rightarrow> 'a tensor \<Rightarrow> 'a tensor \<Rightarrow> error + 'a tensor" where
  "add_t be a b =
     and_then (broadcast_shapes (shape a) (shape b))
       (\<lambda>s. Inr (build s (\<lambda>idx. fadd be (elem a (bidx (shape a) idx))
                                          (elem b (bidx (shape b) idx)))))"

text \<open>\<^verbatim>\<open>t.masked_fill(mask, v)\<close>, out of place, for a mask that is already boolean.\<close>

definition masked_fill :: "'a tensor \<Rightarrow> bool tensor \<Rightarrow> 'a \<Rightarrow> error + 'a tensor" where
  "masked_fill t msk v =
     and_then (broadcast_shapes (shape t) (shape msk))
       (\<lambda>s. Inr (build s (\<lambda>idx. if elem msk (bidx (shape msk) idx) then v
                                 else elem t (bidx (shape t) idx))))"

text \<open>\<^verbatim>\<open>t * c\<close> for a Python float \<open>c\<close>.\<close>

definition mul_scalar :: "'a backend \<Rightarrow> 'a tensor \<Rightarrow> 'a \<Rightarrow> 'a tensor" where
  "mul_scalar be t c = \<lparr>shape = shape t, data = map (\<lambda>x. fmul be x c) (data t)\<rparr>"

subsection \<open>Linear algebra\<close>

definition dot :: "'a backend \<Rightarrow> nat \<Rightarrow> (nat \<Rightarrow> 'a) \<Rightarrow> (nat \<Rightarrow> 'a) \<Rightarrow> 'a" where
  "dot be n f g = foldl (\<lambda>s k. fadd be s (fmul be (f k) (g k))) (fzero be) [0..<n]"

text \<open>
  \<^verbatim>\<open>F.linear(x, w, b)\<close> with \<open>x\<close> of shape \<open>(*, in)\<close>, \<open>w\<close> of shape \<open>(out, in)\<close>
  and \<open>b\<close> of shape \<open>(out)\<close> or \<^verbatim>\<open>None\<close>; other shapes are rejected.
\<close>

definition linear_t ::
  "'a backend \<Rightarrow> 'a tensor \<Rightarrow> 'a tensor \<Rightarrow> 'a tensor option \<Rightarrow> error + 'a tensor" where
  "linear_t be x w b =
     (if length (shape w) = 2 \<and> shape x \<noteq> [] \<and> last (shape x) = shape w ! 1
         \<and> (case b of None \<Rightarrow> True | Some bb \<Rightarrow> shape bb = [shape w ! 0])
      then Inr (build (butlast (shape x) @ [shape w ! 0])
                  (\<lambda>idx. let s = dot be (shape w ! 1)
                                   (\<lambda>k. elem x (butlast idx @ [k]))
                                   (\<lambda>k. elem w [last idx, k])
                         in case b of None \<Rightarrow> s | Some bb \<Rightarrow> fadd be s (elem bb [last idx])))
      else Inl RuntimeError)"

text \<open>\<^verbatim>\<open>torch.bmm(a, b)\<close>: \<open>(B, n, m)\<close> times \<open>(B, m, p)\<close>.\<close>

definition bmm :: "'a backend \<Rightarrow> 'a tensor \<Rightarrow> 'a tensor \<Rightarrow> error + 'a tensor" where
  "bmm be a b =
     (if length (shape a) = 3 \<and> length (shape b) = 3
         \<and> shape a ! 0 = shape b ! 0 \<and> shape a ! 2 = shape b ! 1
      then Inr (build [shape a ! 0, shape a ! 1, shape b ! 2]
                  (\<lambda>idx. dot be (shape a ! 2)
                           (\<lambda>k. elem a [idx ! 0, idx ! 1, k])
                           (\<lambda>k. elem b [idx ! 0, k, idx ! 2])))
      else Inl RuntimeError)"

text \<open>\<^verbatim>\<open>F.softmax(t, dim=-1)\<close>; a tensor without dimensions counts as one row of one element.\<close>

definition softmax :: "'a backend \<Rightarrow> 'a tensor \<Rightarrow> 'a tensor" where
  "softmax be t =
     build (shape t)
       (\<lambda>idx. fdiv be (fexp be (elem t idx))
                (foldl (\<lambda>s k. fadd be s (fexp be (elem t (butlast idx @ [k])))) (fzero be)
                   [0..<(if shape t = [] then 1 else last (shape t))]))"

text \<open>\<^verbatim>\<open>F.dropout(t, p=self.dropout, training=self.training)\<close>.\<close>

definition dropout :: "'a backend \<Rightarrow> 'a tensor \<Rightarrow> 'a tensor" where
  "dropout be t =
     \<lparr>shape = shape t,
      data = map (\<lambda>(i, x). fdropout be i x) (zip [0..<length (data t)] (data t))\<rparr>"

section \<open>The attention module\<close>

text \<open>
  The attributes \<^verbatim>\<open>MultiheadAttention.__init__\<close> sets. \<^verbatim>\<open>self.dropout\<close> and
  \<^verbatim>\<open>self.training\<close> act only through \<^verbatim>\<open>F.dropout\<close> and are part of
  \<open>fdropout\<close>.
\<close>

record 'a mha =
  embed_dim :: int
  kdim :: int
  vdim :: int
  qkv_same_embed_dim :: bool
  num_heads :: int
  head_dim :: int
  scaling :: "'a"
  in_proj_weight :: "'a tensor"
  in_proj_bias :: "'a tensor option"
  out_proj_weight :: "'a tensor"
  out_proj_bias :: "'a tensor option"
  bias_k :: "'a tensor option"
  bias_v :: "'a tensor option"
  add_zero_attn :: bool

text \<open>
  \<^verbatim>\<open>torch.empty(*sizes)\<close> followed by a random initialiser. \<^verbatim>\<open>torch.empty\<close>
  raises \<^verbatim>\<open>RuntimeError\<close> for a negative size and for a tensor it cannot allocate (a
  storage size that overflows, or more memory than there is). Which shapes the library
  can allocate is the parameter \<open>allocatable\<close>; which values the initialiser draws
  is the parameter \<open>rng\<close>.
\<close>

definition empty_t :: "(nat list \<Rightarrow> bool) \<Rightarrow> (nat \<Rightarrow> 'a) \<Rightarrow> int list \<Rightarrow> error + 'a tensor" where
  "empty_t allocatable rng sizes =
     (if list_ex (\<lambda>s. s < 0) sizes then Inl RuntimeError
      else if \<not> allocatable (map nat sizes) then Inl RuntimeError
      else Inr \<lparr>shape = map nat sizes, data = map rng [0..<prod_list (map nat sizes)]\<rparr>)"

text \<open>\<^verbatim>\<open>torch.empty(*sizes)\<close> followed by \<^verbatim>\<open>constant_(t, 0.)\<close>, when \<open>wanted\<close>.\<close>

definition zeros_opt ::
  "'a backend \<Rightarrow> (nat list \<Rightarrow> bool) \<Rightarrow> bool \<Rightarrow> int list \<Rightarrow> error + 'a tensor option" where
  "zeros_opt be allocatable wanted sizes =
     (if \<not> wanted then Inr None
      else if list_ex (\<lambda>s. s < 0) sizes then Inl RuntimeError
      else if \<not> allocatable (map nat sizes) then Inl RuntimeError
      else Inr (Some \<lparr>shape = map nat sizes,
                      data = replicate (prod_list (map nat sizes)) (fzero be)\<rparr>))"

definition empty_opt ::
  "(nat list \<Rightarrow> bool) \<Rightarrow> (nat \<Rightarrow> 'a) \<Rightarrow> bool \<Rightarrow> int list \<Rightarrow> error + 'a tensor option" where
  "empty_opt allocatable rng wanted sizes =
     (if \<not> wanted then Inr None
      else and_then (empty_t allocatable rng sizes) (\<lambda>t. Inr (Some t)))"

text \<open>
  \<^verbatim>\<open>MultiheadAttention.__init__\<close> (lines 41-81) with \<^verbatim>\<open>_reset_parameters\<close>.
  \<^verbatim>\<open>embed_dim // num_heads\<close> raises for \<^verbatim>\<open>num_heads = 0\<close> and
  \<^verbatim>\<open>head_dim ** -0.5\<close> raises for \<^verbatim>\<open>head_dim = 0\<close>, both before the assertions.
\<close>

definition mha_init ::
  "'a backend \<Rightarrow> (nat list \<Rightarrow> bool) \<Rightarrow> (nat \<Rightarrow> 'a) \<Rightarrow> int \<Rightarrow> int \<Rightarrow> bool \<Rightarrow> bool \<Rightarrow> bool
     \<Rightarrow> int option \<Rightarrow> int option \<Rightarrow> error + 'a mha" where
  "mha_init be allocatable rng embed_dim' num_heads' bias add_bias_kv add_zero_attn' kdim' vdim' =
     (let kd = (case kdim' of None \<Rightarrow> embed_dim' | Some k \<Rightarrow> k);
          vd = (case vdim' of None \<Rightarrow> embed_dim' | Some v \<Rightarrow> v);
          same = (kd = embed_dim' \<and> vd = embed_dim')
      in if num_heads' = 0 then Inl ZeroDivisionError
         else let hd = embed_dim' div num_heads'
         in if hd = 0 then Inl ZeroDivisionError
         else if hd * num_heads' \<noteq> embed_dim' then Inl AssertionError
         else if \<not> same then Inl AssertionError
         else
           and_then (empty_t allocatable rng [3 * embed_dim', embed_dim']) (\<lambda>w.
           and_then (zeros_opt be allocatable bias [3 * embed_dim']) (\<lambda>b.
           and_then (empty_t allocatable rng [embed_dim', embed_dim']) (\<lambda>ow.
           and_then (zeros_opt be allocatable bias [embed_dim']) (\<lambda>ob.
           and_then (empty_opt allocatable rng add_bias_kv [1, 1, embed_dim']) (\<lambda>bk.
           and_then (empty_opt allocatable rng add_bias_kv [1, 1, embed_dim']) (\<lambda>bv.
           if add_zero_attn' then Inl AssertionError
           else Inr \<lparr>embed_dim = embed_dim', kdim = kd, vdim = vd,
                     qkv_same_embed_dim = same, num_heads = num_heads', head_dim = hd,
                     scaling = frsqrt be hd, in_proj_weight = w, in_proj_bias = b,
                     out_proj_weight = ow, out_proj_bias = ob, bias_k = bk, bias_v = bv,
                     add_zero_attn = add_zero_attn'\<rparr>)))))))"

section \<open>The decoding state\<close>

text \<open>
  \<^verbatim>\<open>prev_state\<close> and \<^verbatim>\<open>new_state\<close> are dictionaries. The module reads
  \<^verbatim>\<open>prev_state\<close> only through \<^verbatim>\<open>.get(key, None)\<close> on five keys and writes
  \<^verbatim>\<open>new_state\<close> only under these keys, so a dictionary is modelled by the five
  entries; \<open>None\<close> is an absent key.
\<close>

record 'a decoding_state =
  static_key :: "'a tensor option"
  static_value :: "'a tensor option"
  prev_key :: "'a tensor option"
  prev_value :: "'a tensor option"
  prev_key_padding_mask :: "bool tensor option"

text \<open>The dictionary \<^verbatim>\<open>{}\<close>.\<close>

definition empty_state :: "'a decoding_state" where
  "empty_state = \<lparr>static_key = None, static_value = None, prev_key = None,
                   prev_value = None, prev_key_padding_mask = None\<rparr>"

text \<open>What \<^verbatim>\<open>_recurrent_forward\<close> returns: \<^verbatim>\<open>attn, attn_weights, new_state\<close>.\<close>

record 'a attn_result =
  attn :: "'a tensor"
  attn_weights :: "'a tensor"
  new_state :: "'a decoding_state"

section \<open>Incremental decoding\<close>

text \<open>Lines 208-221: the input projections.\<close>

definition project_qkv ::
  "'a mha \<Rightarrow> 'a backend \<Rightarrow> 'a tensor \<Rightarrow> 'a tensor \<Rightarrow> 'a tensor \<Rightarrow> bool \<Rightarrow> 'a tensor option
     \<Rightarrow> error + ('a tensor \<times> 'a tensor \<times> 'a tensor)" where
  "project_qkv m be query key val static_kv static_key' =
     (if qkv_same_embed_dim m then
        and_then (chunk3 (Some (in_proj_weight m))) (\<lambda>(q_w, k_w, v_w).
        and_then (chunk3 (in_proj_bias m)) (\<lambda>(q_b, k_b, v_b).
        and_then (linear_t be query q_w (Some q_b)) (\<lambda>q.
        let projected =
              and_then (linear_t be key k_w (Some k_b)) (\<lambda>k.
              and_then (linear_t be val v_w (Some v_b)) (\<lambda>v. Inr (q, k, v)))
        in if static_kv then
             (if static_key' = None then projected else Inr (q, key, val))
           else projected)))
      else Inl NotImplementedError)"

text \<open>\<^verbatim>\<open>t.contiguous().view(-1, bsz * self.num_heads, self.head_dim).transpose(0, 1)\<close>\<close>

definition split_heads :: "'a mha \<Rightarrow> nat \<Rightarrow> 'a tensor \<Rightarrow> error + 'a tensor" where
  "split_heads m bsz t =
     and_then (view [- 1, int bsz * num_heads m, head_dim m] t) (transpose_t 0 1)"

text \<open>\<^verbatim>\<open>t.contiguous().view(bsz * self.num_heads, -1, self.head_dim)\<close>\<close>

definition cached_heads :: "'a mha \<Rightarrow> nat \<Rightarrow> 'a tensor \<Rightarrow> error + 'a tensor" where
  "cached_heads m bsz t = view [int bsz * num_heads m, - 1, head_dim m] t"

text \<open>\<^verbatim>\<open>t.contiguous().view(bsz, self.num_heads, -1, self.head_dim)\<close>\<close>

definition state_heads :: "'a mha \<Rightarrow> nat \<Rightarrow> 'a tensor \<Rightarrow> error + 'a tensor" where
  "state_heads m bsz t = view [int bsz, num_heads m, - 1, head_dim m] t"

text \<open>
  Lines 237-240: the cached history goes in front of the new key and value. A state
  with \<^verbatim>\<open>prev_key\<close> but without \<^verbatim>\<open>prev_value\<close> fails on \<^verbatim>\<open>None.contiguous()\<close>.
\<close>

definition extend_history ::
  "'a mha \<Rightarrow> nat \<Rightarrow> 'a decoding_state \<Rightarrow> 'a tensor \<Rightarrow> 'a tensor \<Rightarrow> nat
     \<Rightarrow> error + ('a tensor \<times> 'a tensor \<times> nat)" where
  "extend_history m bsz st k v src_len =
     (case prev_key st of
        None \<Rightarrow> Inr (k, v, src_len)
      | Some pk \<Rightarrow>
          and_then (cached_heads m bsz pk) (\<lambda>pk'.
          and_then (cat [pk', k] 1) (\<lambda>k'.
          case prev_value st of
            None \<Rightarrow> Inl AttributeError
          | Some pv \<Rightarrow>
              and_then (cached_heads m bsz pv) (\<lambda>pv'.
              and_then (cat [pv', v] 1) (\<lambda>v'.
              and_then (size_dim k' 1) (\<lambda>n. Inr (k', v', n)))))))"

text \<open>
  Lines 227-242: the key and value the scores are computed from, the source length and
  the dictionary \<^verbatim>\<open>new_state\<close>, which starts as \<^verbatim>\<open>{}\<close> (line 206).
\<close>

definition resolve_kv ::
  "'a mha \<Rightarrow> nat \<Rightarrow> 'a tensor \<Rightarrow> 'a tensor \<Rightarrow> bool \<Rightarrow> 'a decoding_state \<Rightarrow> nat
     \<Rightarrow> error + ('a tensor \<times> 'a tensor \<times> nat \<times> 'a decoding_state)" where
  "resolve_kv m bsz key val static_kv st src_len =
     (case (if static_kv then static_key st else None) of
        Some sk \<Rightarrow>
          and_then (cached_heads m bsz sk) (\<lambda>k.
          case static_value st of
            None \<Rightarrow> Inl AttributeError
          | Some sv \<Rightarrow>
              and_then (cached_heads m bsz sv) (\<lambda>v. Inr (k, v, src_len, empty_state)))
      | None \<Rightarrow>
          and_then (split_heads m bsz key) (\<lambda>k.
          and_then (split_heads m bsz val) (\<lambda>v.
          if static_kv then
            and_then (state_heads m bsz k) (\<lambda>sk.
            and_then (state_heads m bsz v) (\<lambda>sv.
            Inr (k, v, src_len, empty_state\<lparr>static_key := Some sk, static_value := Some sv\<rparr>)))
          else
            and_then (extend_history m bsz st k v src_len) (\<lambda>(k', v', n).
            and_then (state_heads m bsz k') (\<lambda>pk.
            and_then (state_heads m bsz v') (\<lambda>pv.
            Inr (k', v', n, empty_state\<lparr>prev_key := Some pk, prev_value := Some pv\<rparr>)))))))"

text \<open>Lines 249-266: the scores, with the additive mask when there is one.\<close>

definition attn_scores ::
  "'a backend \<Rightarrow> 'a tensor \<Rightarrow> 'a tensor \<Rightarrow> 'a tensor option \<Rightarrow> error + 'a tensor" where
  "attn_scores be q k attn_mask =
     and_then (transpose_t 1 2 k) (\<lambda>kt.
     and_then (bmm be q kt) (\<lambda>w.
     case attn_mask of
       None \<Rightarrow> Inr w
     | Some am \<Rightarrow> and_then (unsqueeze 0 am) (\<lambda>am'. add_t be w am')))"

text \<open>
  Lines 270-273: outside static mode the mask of this call goes behind the cached one
  and the result is stored.
\<close>

definition accumulate_mask ::
  "bool \<Rightarrow> bool tensor option \<Rightarrow> bool tensor \<Rightarrow> 'a decoding_state
     \<Rightarrow> error + (bool tensor \<times> 'a decoding_state)" where
  "accumulate_mask static_kv prev_mask kpm ns =
     (if \<not> static_kv then
        and_then (case prev_mask of None \<Rightarrow> Inr kpm | Some pm \<Rightarrow> cat [pm, kpm] 1)
          (\<lambda>kpm'. Inr (kpm', ns\<lparr>prev_key_padding_mask := Some kpm'\<rparr>))
      else Inr (kpm, ns))"

text \<open>
  Lines 268-281. The mask is boolean, so \<^verbatim>\<open>.to(torch.bool)\<close> leaves it as it is.
\<close>

definition apply_key_padding_mask ::
  "'a mha \<Rightarrow> 'a backend \<Rightarrow> 'a tensor \<Rightarrow> bool tensor option \<Rightarrow> bool \<Rightarrow> bool tensor option
     \<Rightarrow> 'a decoding_state \<Rightarrow> nat \<Rightarrow> nat \<Rightarrow> nat \<Rightarrow> error + ('a tensor \<times> 'a decoding_state)" where
  "apply_key_padding_mask m be w key_padding_mask static_kv prev_mask ns bsz tgt_len src_len =
     (case key_padding_mask of
        None \<Rightarrow> Inr (w, ns)
      | Some kpm \<Rightarrow>
          and_then (accumulate_mask static_kv prev_mask kpm ns) (\<lambda>(kpm', ns').
          and_then (view [int bsz, num_heads m, int tgt_len, int src_len] w) (\<lambda>w4.
          and_then (unsqueeze 1 kpm') (\<lambda>m1.
          and_then (unsqueeze 2 m1) (\<lambda>m2.
          and_then (masked_fill w4 m2 (fneg_inf be)) (\<lambda>wf.
          and_then (view [int bsz * num_heads m, int tgt_len, int src_len] wf) (\<lambda>w3.
          Inr (w3, ns'))))))))"

text \<open>Lines 283-297: softmax, dropout, the check of the target length, the output.\<close>

definition attend ::
  "'a mha \<Rightarrow> 'a backend \<Rightarrow> 'a tensor \<Rightarrow> 'a tensor \<Rightarrow> nat \<Rightarrow> nat \<Rightarrow> error + 'a tensor" where
  "attend m be w v tgt_len bsz =
     (let attn_probs = dropout be (softmax be w)
      in if 1 < tgt_len then Inl RuntimeError
         else
           and_then (bmm be attn_probs v) (\<lambda>a.
           and_then (transpose_t 0 1 a) (\<lambda>a'.
           and_then (view [int tgt_len, int bsz, embed_dim m] a') (\<lambda>a''.
           linear_t be a'' (out_proj_weight m) (out_proj_bias m)))))"

text \<open>\<^verbatim>\<open>MultiheadAttention._recurrent_forward\<close> (lines 186-301).\<close>

definition recurrent_forward ::
  "'a mha \<Rightarrow> 'a backend \<Rightarrow> 'a tensor \<Rightarrow> 'a tensor \<Rightarrow> 'a tensor \<Rightarrow> bool tensor option
     \<Rightarrow> 'a tensor option \<Rightarrow> bool \<Rightarrow> 'a decoding_state \<Rightarrow> error + 'a attn_result" where
  "recurrent_forward m be query key val key_padding_mask attn_mask static_kv prev_state =
     and_then (size3 query) (\<lambda>(tgt_len, bsz, _).
     and_then (size_dim key 0) (\<lambda>src_len.
     and_then (project_qkv m be query key val static_kv (static_key prev_state)) (\<lambda>(q, k, v).
     and_then (split_heads m bsz (mul_scalar be q (scaling m))) (\<lambda>q'.
     and_then (resolve_kv m bsz k v static_kv prev_state src_len) (\<lambda>(k', v', src_len', ns).
     and_then (attn_scores be q' k' attn_mask) (\<lambda>w.
     and_then (apply_key_padding_mask m be w key_padding_mask static_kv
                 (prev_key_padding_mask prev_state) ns bsz tgt_len src_len') (\<lambda>(w', ns').
     and_then (attend m be w' v' tgt_len bsz) (\<lambda>a.
     Inr \<lparr>attn = a, attn_weights = w', new_state = ns'\<rparr>))))))))"

text \<open>
  \<^verbatim>\<open>MultiheadAttention.forward\<close> (lines 111-165): with a \<^verbatim>\<open>prev_state\<close> the call
  is the incremental one; without, it is \<^verbatim>\<open>F.multi_head_attention_forward\<close> of the
  library, the parameter \<open>full\<close>.
\<close>

datatype 'a forward_result =
    Full "'a tensor" "'a tensor"
  | Incremental "'a attn_result"

definition forward ::
  "('a mha \<Rightarrow> 'a tensor \<Rightarrow> 'a tensor \<Rightarrow> 'a tensor \<Rightarrow> bool tensor option \<Rightarrow> 'a tensor option
      \<Rightarrow> error + ('a tensor \<times> 'a tensor))
     \<Rightarrow> 'a mha \<Rightarrow> 'a backend \<Rightarrow> 'a tensor \<Rightarrow> 'a tensor \<Rightarrow> 'a tensor \<Rightarrow> bool tensor option
     \<Rightarrow> 'a tensor option \<Rightarrow> bool \<Rightarrow> 'a decoding_state option \<Rightarrow> error + 'a forward_result" where
  "forward full m be query key val key_padding_mask attn_mask static_kv prev_state =
     (case prev_state of
        Some st \<Rightarrow>
          and_then (recurrent_forward m be query key val key_padding_mask attn_mask static_kv st)
            (\<lambda>r. Inr (Incremental r))
      | None \<Rightarrow>
          and_then (full m query key val key_padding_mask attn_mask)
            (\<lambda>(a, w). Inr (Full a w)))"

section \<open>Callers\<close>

text \<open>
  The arguments of one incremental call, and the call itself.
\<close>

record 'a step_input =
  query_in :: "'a tensor"
  key_in :: "'a tensor"
  value_in :: "'a tensor"
  key_padding_mask_in :: "bool tensor option"
  attn_mask_in :: "'a tensor option"

definition call ::
  "'a mha \<Rightarrow> 'a backend \<Rightarrow> bool \<Rightarrow> 'a step_input \<Rightarrow> 'a decoding_state \<Rightarrow> error + 'a attn_result" where
  "call m be static_kv x st =
     recurrent_forward m be (query_in x) (key_in x) (value_in x) (key_padding_mask_in x)
       (attn_mask_in x) static_kv st"

text \<open>
  A decoding loop that passes the state a call returned to the next call as
  \<^verbatim>\<open>prev_state\<close>. It stops at the first call that raises, and returns the results of
  all calls and the last returned state.
\<close>

fun decode_threaded ::
  "'a mha \<Rightarrow> 'a backend \<Rightarrow> bool \<Rightarrow> 'a decoding_state \<Rightarrow> 'a step_input list
     \<Rightarrow> error + ('a attn_result list \<times> 'a decoding_state)" where
  "decode_threaded m be static_kv st [] = Inr ([], st)"
| "decode_threaded m be static_kv st (x # xs) =
     and_then (call m be static_kv x st) (\<lambda>r.
     and_then (decode_threaded m be static_kv (new_state r) xs) (\<lambda>(rs, st').
     Inr (r # rs, st')))"

subsection \<open>Dictionaries as objects\<close>

text \<open>
  Python dictionaries are objects with an identity. A heap maps the references in use,
  those below \<open>next_ref\<close>, to dictionaries. \<^verbatim>\<open>_recurrent_forward\<close> reads the
  dictionary behind \<^verbatim>\<open>prev_state\<close> with \<^verbatim>\<open>.get\<close>, creates the dictionary
  \<^verbatim>\<open>new_state = {}\<close> (line 206), writes only into that one and returns a reference
  to it.
\<close>

type_synonym ref = nat

record 'a heap =
  dicts :: "ref \<Rightarrow> 'a decoding_state option"
  next_ref :: ref

definition recurrent_forward_on_heap ::
  "'a mha \<Rightarrow> 'a backend \<Rightarrow> 'a tensor \<Rightarrow> 'a tensor \<Rightarrow> 'a tensor \<Rightarrow> bool tensor option
     \<Rightarrow> 'a tensor option \<Rightarrow> bool \<Rightarrow> ref \<Rightarrow> 'a heap
     \<Rightarrow> error + (('a tensor \<times> 'a tensor \<times> ref) \<times> 'a heap)" where
  "recurrent_forward_on_heap m be query key val key_padding_mask attn_mask static_kv prev_state h =
     (case dicts h prev_state of
        None \<Rightarrow> Inl AttributeError
      | Some st \<Rightarrow>
          and_then (recurrent_forward m be query key val key_padding_mask attn_mask static_kv st)
            (\<lambda>r. let new_ref = next_ref h
                 in Inr ((attn r, attn_weights r, new_ref),
                         \<lparr>dicts = (dicts h)(new_ref := Some (new_state r)),
                          next_ref = Suc new_ref\<rparr>)))"

section \<open>Well-shaped modules and states\<close>

text \<open>
  The shapes \<^verbatim>\<open>__init__\<close> gives the parameters; training changes the values only.
\<close>

definition wf_module :: "'a mha \<Rightarrow> bool" where
  "wf_module m \<longleftrightarrow>
     0 < embed_dim m \<and> head_dim m * num_heads m = embed_dim m \<and> qkv_same_embed_dim m
     \<and> shape (in_proj_weight m) = [3 * nat (embed_dim m), nat (embed_dim m)]
     \<and> shape (out_proj_weight m) = [nat (embed_dim m), nat (embed_dim m)]
     \<and> (case in_proj_bias m of None \<Rightarrow> True | Some b \<Rightarrow> shape b = [3 * nat (embed_dim m)])
     \<and> (case out_proj_bias m of None \<Rightarrow> True | Some b \<Rightarrow> shape b = [nat (embed_dim m)])"

text \<open>
  A cached key or value of a state, for batch size \<open>bsz\<close> and \<open>n\<close> cached positions:
  of shape \<open>(bsz, num_heads, n, head_dim)\<close>, or absent, which counts as \<open>n = 0\<close>.
\<close>

definition cached_shape :: "'a mha \<Rightarrow> nat \<Rightarrow> nat \<Rightarrow> 'b tensor option \<Rightarrow> bool" where
  "cached_shape m bsz n c =
     (case c of
        None \<Rightarrow> n = 0
      | Some t \<Rightarrow> shape t = [bsz, nat (num_heads m), n, nat (head_dim m)])"

section \<open>An arithmetic to run the model on\<close>

text \<open>
  Exact arithmetic on the reals with the special values of floating point. Rounding is
  not modelled; the concrete runs below use numbers that floating point represents
  exactly wherever the statement depends on them.
\<close>

datatype xfloat = Num real | PosInf | NegInf | NaN

fun xadd :: "xfloat \<Rightarrow> xfloat \<Rightarrow> xfloat" where
  "xadd (Num a) (Num b) = Num (a + b)"
| "xadd NaN y = NaN"
| "xadd x NaN = NaN"
| "xadd PosInf NegInf = NaN"
| "xadd NegInf PosInf = NaN"
| "xadd PosInf y = PosInf"
| "xadd x PosInf = PosInf"
| "xadd NegInf y = NegInf"
| "xadd x NegInf = NegInf"

definition xinf :: "bool \<Rightarrow> xfloat" where
  "xinf positive = (if positive then PosInf else NegInf)"

fun xmul :: "xfloat \<Rightarrow> xfloat \<Rightarrow> xfloat" where
  "xmul (Num a) (Num b) = Num (a * b)"
| "xmul NaN y = NaN"
| "xmul x NaN = NaN"
| "xmul (Num a) PosInf = (if a = 0 then NaN else xinf (0 < a))"
| "xmul (Num a) NegInf = (if a = 0 then NaN else xinf (a < 0))"
| "xmul PosInf (Num b) = (if b = 0 then NaN else xinf (0 < b))"
| "xmul NegInf (Num b) = (if b = 0 then NaN else xinf (b < 0))"
| "xmul PosInf PosInf = PosInf"
| "xmul NegInf NegInf = PosInf"
| "xmul PosInf NegInf = NegInf"
| "xmul NegInf PosInf = NegInf"

fun xexp :: "xfloat \<Rightarrow> xfloat" where
  "xexp (Num a) = Num (exp a)"
| "xexp PosInf = PosInf"
| "xexp NegInf = Num 0"
| "xexp NaN = NaN"

fun xdiv :: "xfloat \<Rightarrow> xfloat \<Rightarrow> xfloat" where
  "xdiv (Num a) (Num b) =
     (if b = 0 then (if a = 0 then NaN else xinf (0 < a)) else Num (a / b))"
| "xdiv NaN y = NaN"
| "xdiv x NaN = NaN"
| "xdiv (Num a) y = Num 0"
| "xdiv PosInf (Num b) = xinf (0 \<le> b)"
| "xdiv NegInf (Num b) = xinf (b < 0)"
| "xdiv x y = NaN"

definition exact :: "xfloat backend" where
  "exact = \<lparr>fadd = xadd, fmul = xmul, fzero = Num 0, fexp = xexp, fdiv = xdiv,
             fneg_inf = NegInf,
             frsqrt = (\<lambda>n. if 0 < n then Num (1 / sqrt (real_of_int n)) else NaN),
             fdropout = (\<lambda>i x. x)\<rparr>"

text \<open>
  A module with \<^verbatim>\<open>embed_dim = 1\<close> and one head, as \<^verbatim>\<open>MultiheadAttention(1, 1)\<close>
  builds it, with the weights 1, 2, 3 for query, key and value.
\<close>

definition tiny :: "xfloat mha" where
  "tiny = \<lparr>embed_dim = 1, kdim = 1, vdim = 1, qkv_same_embed_dim = True, num_heads = 1,
            head_dim = 1, scaling = Num 1,
            in_proj_weight = \<lparr>shape = [3, 1], data = [Num 1, Num 2, Num 3]\<rparr>,
            in_proj_bias = Some \<lparr>shape = [3], data = [Num 0, Num 0, Num 0]\<rparr>,
            out_proj_weight = \<lparr>shape = [1, 1], data = [Num 1]\<rparr>,
            out_proj_bias = Some \<lparr>shape = [1], data = [Num 0]\<rparr>,
            bias_k = None, bias_v = None, add_zero_attn = False\<rparr>"

text \<open>A tensor of shape \<open>(len, 1, 1)\<close>: \<open>len\<close> time steps, batch size 1.\<close>

definition steps :: "real list \<Rightarrow> xfloat tensor" where
  "steps xs = \<lparr>shape = [length xs, 1, 1], data = map Num xs\<rparr>"

text \<open>A padding mask of shape \<open>(1, len)\<close>.\<close>

definition pad_mask :: "bool list \<Rightarrow> bool tensor" where
  "pad_mask bs = \<lparr>shape = [1, length bs], data = bs\<rparr>"

text \<open>
  The state the first static-mode call returns for the source \<open>steps [1]\<close>: the
  projected key 2 and value 3.
\<close>

definition cached_source :: "xfloat decoding_state" where
  "cached_source =
     empty_state\<lparr>static_key := Some \<lparr>shape = [1, 1, 1, 1], data = [Num 2]\<rparr>,
                  static_value := Some \<lparr>shape = [1, 1, 1, 1], data = [Num 3]\<rparr>\<rparr>"

text \<open>
  A growing-mode state after one step whose position is padded: one cached key and
  value, and the mask of that step.
\<close>

definition padded_history :: "xfloat decoding_state" where
  "padded_history =
     empty_state\<lparr>prev_key := Some \<lparr>shape = [1, 1, 1, 1], data = [Num 2]\<rparr>,
                  prev_value := Some \<lparr>shape = [1, 1, 1, 1], data = [Num 3]\<rparr>,
                  prev_key_padding_mask := Some (pad_mask [True])\<rparr>"

text \<open>What a growing-mode call without a mask returns on \<open>padded_history\<close>.\<close>

definition unmasked_result :: "xfloat attn_result" where
  "unmasked_result =
     \<lparr>attn = \<lparr>shape = [1, 1, 1], data = [Num 3]\<rparr>,
      attn_weights = \<lparr>shape = [1, 1, 2], data = [Num 2, Num 2]\<rparr>,
      new_state =
        empty_state\<lparr>prev_key := Some \<lparr>shape = [1, 1, 2, 1], data = [Num 2, Num 2]\<rparr>,
                     prev_value := Some \<lparr>shape = [1, 1, 2, 1], data = [Num 3, Num 3]\<rparr>\<rparr>\<rparr>"

text \<open>A heap with one dictionary, the empty one, at reference 0.\<close>

definition one_dict :: "xfloat heap" where
  "one_dict = \<lparr>dicts = (\<lambda>r. if r = 0 then Some empty_state else None), next_ref = 1\<rparr>"

text \<open>The state a growing-mode call returns for the first step \<open>steps [1]\<close>.\<close>

definition first_history :: "xfloat decoding_state" where
  "first_history =
     empty_state\<lparr>prev_key := Some \<lparr>shape = [1, 1, 1, 1], data = [Num 2]\<rparr>,
                  prev_value := Some \<lparr>shape = [1, 1, 1, 1], data = [Num 3]\<rparr>\<rparr>"

text \<open>
  One call on the source \<open>steps [1]\<close> with the query \<open>steps [1]\<close> and no mask; what
  it returns in static mode when it has to project the source, and what it returns
  when it finds the source in the cache.
\<close>

definition source_step :: "xfloat step_input" where
  "source_step = \<lparr>query_in = steps [1], key_in = steps [1], value_in = steps [1],
                   key_padding_mask_in = None, attn_mask_in = None\<rparr>"

definition projecting_result :: "xfloat attn_result" where
  "projecting_result =
     \<lparr>attn = \<lparr>shape = [1, 1, 1], data = [Num 3]\<rparr>,
      attn_weights = \<lparr>shape = [1, 1, 1], data = [Num 2]\<rparr>,
      new_state = cached_source\<rparr>"

definition reusing_result :: "xfloat attn_result" where
  "reusing_result =
     \<lparr>attn = \<lparr>shape = [1, 1, 1], data = [Num 3]\<rparr>,
      attn_weights = \<lparr>shape = [1, 1, 1], data = [Num 2]\<rparr>,
      new_state = empty_state\<rparr>"

text \<open>
  Growing-mode steps on the module \<open>tiny\<close> with a padding mask of one position: the
  step, the state after steps with the keys \<open>ks\<close> and the masks \<open>bs\<close>, and the
  result of a step with the output \<open>a\<close> and the scores \<open>ws\<close>.
\<close>

definition masked_step :: "real \<Rightarrow> bool \<Rightarrow> xfloat step_input" where
  "masked_step k b = \<lparr>query_in = steps [0], key_in = steps [k], value_in = steps [k],
                       key_padding_mask_in = Some (pad_mask [b]), attn_mask_in = None\<rparr>"

definition tiny_history :: "real list \<Rightarrow> bool list \<Rightarrow> xfloat decoding_state" where
  "tiny_history ks bs =
     \<lparr>static_key = None, static_value = None,
      prev_key = Some \<lparr>shape = [1, 1, length ks, 1], data = map (\<lambda>k. Num (2 * k)) ks\<rparr>,
      prev_value = Some \<lparr>shape = [1, 1, length ks, 1], data = map (\<lambda>k. Num (3 * k)) ks\<rparr>,
      prev_key_padding_mask = Some (pad_mask bs)\<rparr>"

definition masked_result ::
  "real \<Rightarrow> xfloat list \<Rightarrow> real list \<Rightarrow> bool list \<Rightarrow> xfloat attn_result" where
  "masked_result a ws ks bs =
     \<lparr>attn = \<lparr>shape = [1, 1, 1], data = [Num a]\<rparr>,
      attn_weights = \<lparr>shape = [1, 1, length ws], data = ws\<rparr>,
      new_state = tiny_history ks bs\<rparr>"

text \<open>
  The example of the specification: \<^verbatim>\<open>embed_dim = 4\<close>, \<^verbatim>\<open>num_heads = 2\<close>, batch
  size 1, here with all weights 1 and all biases 0; an input of one time step; the
  state after steps with the keys and values \<open>ks\<close>; the result of a step.
\<close>

definition four :: "xfloat mha" where
  "four = \<lparr>embed_dim = 4, kdim = 4, vdim = 4, qkv_same_embed_dim = True, num_heads = 2,
            head_dim = 2, scaling = Num (1 / sqrt 2),
            in_proj_weight =
              \<lparr>shape = [12, 4],
               data = [Num 1, Num 1, Num 1, Num 1, Num 1, Num 1, Num 1, Num 1, Num 1,
                       Num 1, Num 1, Num 1, Num 1, Num 1, Num 1,
                       Num 1, Num 1, Num 1, Num 1, Num 1, Num 1,
                       Num 1, Num 1, Num 1, Num 1, Num 1, Num 1,
                       Num 1, Num 1, Num 1, Num 1, Num 1, Num 1,
                       Num 1, Num 1, Num 1, Num 1, Num 1, Num 1,
                       Num 1, Num 1, Num 1, Num 1, Num 1, Num 1,
                       Num 1, Num 1, Num 1]\<rparr>,
            in_proj_bias =
              Some \<lparr>shape = [12],
                    data = [Num 0, Num 0, Num 0, Num 0, Num 0, Num 0, Num 0, Num 0, Num
                            0, Num 0, Num 0, Num 0]\<rparr>,
            out_proj_weight =
              \<lparr>shape = [4, 4],
               data = [Num 1, Num 1, Num 1, Num 1, Num 1, Num 1, Num 1, Num 1, Num 1,
                       Num 1, Num 1, Num 1, Num 1, Num 1, Num 1,
                       Num 1]\<rparr>,
            out_proj_bias = Some \<lparr>shape = [4], data = [Num 0, Num 0, Num 0, Num 0]\<rparr>,
            bias_k = None, bias_v = None, add_zero_attn = False\<rparr>"

definition vec4 :: "real \<Rightarrow> xfloat tensor" where
  "vec4 x = \<lparr>shape = [1, 1, 4], data = [Num x, Num 0, Num 0, Num 0]\<rparr>"

definition history4 :: "real list \<Rightarrow> xfloat decoding_state" where
  "history4 ks =
     \<lparr>static_key = None, static_value = None,
      prev_key = Some \<lparr>shape = [1, 2, length ks, 2],
                       data = concat (map (\<lambda>k. [Num k, Num k]) (ks @ ks))\<rparr>,
      prev_value = Some \<lparr>shape = [1, 2, length ks, 2],
                         data = concat (map (\<lambda>k. [Num k, Num k]) (ks @ ks))\<rparr>,
      prev_key_padding_mask = None\<rparr>"

definition result4 :: "real \<Rightarrow> real list \<Rightarrow> xfloat attn_result" where
  "result4 a ks =
     \<lparr>attn = \<lparr>shape = [1, 1, 4], data = [Num a, Num a, Num a, Num a]\<rparr>,
      attn_weights = \<lparr>shape = [2, 1, length ks], data = map (\<lambda>k. Num 0) (ks @ ks)\<rparr>,
      new_state = history4 ks\<rparr>"

text \<open>
  A library that can allocate every tensor of 32-bit floats whose storage size in bytes
  fits a signed 64-bit integer.
\<close>

definition addressable :: "nat list \<Rightarrow> bool" where
  "addressable sizes \<longleftrightarrow> 4 * prod_list sizes < 2 ^ 63"

text \<open>A library function for calls without \<^verbatim>\<open>prev_state\<close>, which no run below makes.\<close>

definition no_full ::
  "xfloat mha \<Rightarrow> xfloat tensor \<Rightarrow> xfloat tensor \<Rightarrow> xfloat tensor \<Rightarrow> bool tensor option
     \<Rightarrow> xfloat tensor option \<Rightarrow> error + (xfloat tensor \<times> xfloat tensor)" where
  "no_full m query key val key_padding_mask attn_mask = Inl NotImplementedError"

section \<open>Evaluation and basic facts\<close>

lemmas eval_defs = recurrent_forward_def and_then_def size3_def size_dim_def project_qkv_def
  chunk3_def chunk_def linear_t_def build_def elem_def dot_def split_heads_def view_def
  transpose_t_def swap_dims_def mul_scalar_def resolve_kv_def extend_history_def state_heads_def
  cached_heads_def cat_def cat_slice_def attn_scores_def bmm_def unsqueeze_def add_t_def
  broadcast_shapes_def bidx_def apply_key_padding_mask_def accumulate_mask_def masked_fill_def
  attend_def softmax_def dropout_def empty_state_def exact_def tiny_def steps_def pad_mask_def
  cached_source_def padded_history_def unmasked_result_def one_dict_def first_history_def
  recurrent_forward_on_heap_def
  xinf_def
  call_def forward_def Let_def upt_rec

lemma and_then_Inr_iff: "and_then r f = Inr y \<longleftrightarrow> (\<exists>x. r = Inr x \<and> f x = Inr y)"
  by (cases r) (simp_all add: and_then_def)

lemma and_then_Inr [simp]: "and_then (Inr x) f = f x"
  by (simp add: and_then_def)

lemma and_then_Inl [simp]: "and_then (Inl e) f = Inl e"
  by (simp add: and_then_def)

lemma attend_long_query: "1 < tgt_len \<Longrightarrow> attend m be w v tgt_len bsz = Inl RuntimeError"
  by (simp add: attend_def Let_def)

lemma div_times_eq_iff: "(a::int) div b * b = a \<longleftrightarrow> a mod b = 0"
proof
  assume "a div b * b = a"
  with div_mult_mod_eq [of a b] show "a mod b = 0" by linarith
next
  assume "a mod b = 0"
  then show "a div b * b = a" by (simp add: mod_0_imp_dvd)
qed

lemma div_eq_0_exact: "(a::int) mod b = 0 \<Longrightarrow> b \<noteq> 0 \<Longrightarrow> a div b = 0 \<longleftrightarrow> a = 0"
  by auto

lemma isl_and_then: "(\<And>x. isl (f x)) \<Longrightarrow> isl (and_then r f)"
  by (cases r) simp_all

section \<open>Fail-fast cases\<close>

text \<open>
  C5. An incremental call (a call of \<open>forward\<close> with a \<^verbatim>\<open>prev_state\<close>) whose query
  has a target length greater than 1 raises an error and returns no result, whatever
  the other arguments, the mode and the state are.
\<close>

theorem incremental_call_rejects_long_query:
  assumes "size_dim query 0 = Inr tgt_len" and "1 < tgt_len"
  shows "\<exists>e. forward full m be query key val key_padding_mask attn_mask static_kv (Some st)
              = Inl e"
proof -
  have "\<exists>e. recurrent_forward m be query key val key_padding_mask attn_mask static_kv st = Inl e"
    using assms
    by (auto simp: recurrent_forward_def and_then_def size3_def size_dim_def attend_long_query
          split: sum.splits prod.splits list.splits if_splits)
  then show ?thesis
    by (auto simp: forward_def)
qed

theorem incremental_call_rejects_long_query_witness:
  "size_dim (steps [1, 2]) 0 = Inr 2 \<and> (1::nat) < 2
   \<and> (\<exists>e. forward no_full tiny exact (steps [1, 2]) (steps [1]) (steps [1]) None None False
             (Some empty_state) = Inl e)"
  using incremental_call_rejects_long_query
          [of "steps [1, 2]" 2 no_full tiny exact "steps [1]" "steps [1]" None None False
              empty_state]
  by (simp add: size_dim_def steps_def)

text \<open>
  The example of the specification: a query of two time steps with a
  \<^verbatim>\<open>prev_state\<close> reaches the check of line 292 and raises its \<^verbatim>\<open>RuntimeError\<close>.
\<close>

lemma two_step_query_raises:
  "forward no_full tiny exact (steps [1, 2]) (steps [1]) (steps [1]) None None False
     (Some empty_state) = Inl RuntimeError"
  by (simp add: eval_defs)

subsection \<open>Construction\<close>

lemma mha_init_succeeds:
  assumes H: "H \<noteq> 0" and E: "0 < E" and M: "E mod H = 0"
    and kd: "kd = None \<or> kd = Some E" and vd: "vd = None \<or> vd = Some E"
    and w: "allocatable [3 * nat E, nat E]" and ow: "allocatable [nat E, nat E]"
    and b: "bias \<Longrightarrow> allocatable [3 * nat E] \<and> allocatable [nat E]"
    and bk: "add_bias_kv \<Longrightarrow> allocatable [1, 1, nat E]"
  shows "mha_init be allocatable rng E H bias add_bias_kv False kd vd
         = Inr \<lparr>embed_dim = E, kdim = E, vdim = E, qkv_same_embed_dim = True, num_heads = H,
                head_dim = E div H, scaling = frsqrt be (E div H),
                in_proj_weight = \<lparr>shape = [3 * nat E, nat E],
                                   data = map rng [0..<3 * nat E * nat E]\<rparr>,
                in_proj_bias =
                  (if bias then Some \<lparr>shape = [3 * nat E],
                                        data = replicate (3 * nat E) (fzero be)\<rparr>
                   else None),
                out_proj_weight = \<lparr>shape = [nat E, nat E],
                                    data = map rng [0..<nat E * nat E]\<rparr>,
                out_proj_bias =
                  (if bias then Some \<lparr>shape = [nat E], data = replicate (nat E) (fzero be)\<rparr>
                   else None),
                bias_k =
                  (if add_bias_kv then Some \<lparr>shape = [1, 1, nat E],
                                               data = map rng [0..<nat E]\<rparr>
                   else None),
                bias_v =
                  (if add_bias_kv then Some \<lparr>shape = [1, 1, nat E],
                                               data = map rng [0..<nat E]\<rparr>
                   else None),
                add_zero_attn = False\<rparr>"
proof -
  from kd have kd': "(case kd of None \<Rightarrow> E | Some k \<Rightarrow> k) = E"
    by auto
  from vd have vd': "(case vd of None \<Rightarrow> E | Some k \<Rightarrow> k) = E"
    by auto
  from H M E have hd: "E div H \<noteq> 0"
    by (simp add: div_eq_0_exact)
  from M have hh: "E div H * H = E"
    by (simp add: div_times_eq_iff)
  from E have n: "nat (3 * E) = 3 * nat E"
    by simp
  from E w ow have
    e1: "empty_t allocatable rng [3 * E, E]
         = Inr \<lparr>shape = [3 * nat E, nat E], data = map rng [0..<3 * nat E * nat E]\<rparr>" and
    e2: "empty_t allocatable rng [E, E]
         = Inr \<lparr>shape = [nat E, nat E], data = map rng [0..<nat E * nat E]\<rparr>"
    by (simp_all add: empty_t_def n)
  from E b have
    z1: "zeros_opt be allocatable bias [3 * E]
         = Inr (if bias then Some \<lparr>shape = [3 * nat E],
                                     data = replicate (3 * nat E) (fzero be)\<rparr>
                else None)" and
    z2: "zeros_opt be allocatable bias [E]
         = Inr (if bias then Some \<lparr>shape = [nat E], data = replicate (nat E) (fzero be)\<rparr>
                else None)"
    by (simp_all add: zeros_opt_def n)
  from E bk have
    k: "empty_opt allocatable rng add_bias_kv [1, 1, E]
        = Inr (if add_bias_kv then Some \<lparr>shape = [1, 1, nat E], data = map rng [0..<nat E]\<rparr>
               else None)"
    by (simp add: empty_opt_def empty_t_def)
  show ?thesis
    unfolding mha_init_def Let_def kd' vd'
    by (simp only: H hd hh e1 e2 z1 z2 k and_then_Inr if_False if_True simp_thms)
qed

lemma mha_init_fails:
  assumes "H = 0 \<or> E \<le> 0 \<or> E mod H \<noteq> 0 \<or> (\<exists>k. kd = Some k \<and> k \<noteq> E)
           \<or> (\<exists>v. vd = Some v \<and> v \<noteq> E) \<or> aza
           \<or> \<not> allocatable [3 * nat E, nat E] \<or> \<not> allocatable [nat E, nat E]
           \<or> (bias \<and> (\<not> allocatable [3 * nat E] \<or> \<not> allocatable [nat E]))
           \<or> (add_bias_kv \<and> \<not> allocatable [1, 1, nat E])"
  shows "isl (mha_init be allocatable rng E H bias add_bias_kv aza kd vd)"
proof (cases "H = 0 \<or> E div H = 0 \<or> E div H * H \<noteq> E
              \<or> (case kd of None \<Rightarrow> E | Some k \<Rightarrow> k) \<noteq> E
              \<or> (case vd of None \<Rightarrow> E | Some k \<Rightarrow> k) \<noteq> E")
  case True
  then show ?thesis
    by (auto simp: mha_init_def Let_def)
next
  case False
  then have H: "H \<noteq> 0" and M: "E mod H = 0" and "E \<noteq> 0"
    and kd: "\<not> (\<exists>k. kd = Some k \<and> k \<noteq> E)" and vd: "\<not> (\<exists>v. vd = Some v \<and> v \<noteq> E)"
    by (auto simp: div_times_eq_iff split: option.splits)
  with assms have c: "E < 0 \<or> aza
      \<or> \<not> allocatable [3 * nat E, nat E] \<or> \<not> allocatable [nat E, nat E]
      \<or> (bias \<and> (\<not> allocatable [3 * nat E] \<or> \<not> allocatable [nat E]))
      \<or> (add_bias_kv \<and> \<not> allocatable [1, 1, nat E])"
    by auto
  have "isl (and_then (empty_t allocatable rng [3 * E, E]) (\<lambda>w.
           and_then (zeros_opt be allocatable bias [3 * E]) (\<lambda>b.
           and_then (empty_t allocatable rng [E, E]) (\<lambda>ow.
           and_then (zeros_opt be allocatable bias [E]) (\<lambda>ob.
           and_then (empty_opt allocatable rng add_bias_kv [1, 1, E]) (\<lambda>bk.
           and_then (empty_opt allocatable rng add_bias_kv [1, 1, E]) (\<lambda>bv.
           if aza then Inl AssertionError else Inr (g w b ow ob bk bv))))))))" for g
  proof (cases "E < 0")
    case True
    then show ?thesis
      by (simp add: empty_t_def)
  next
    case False
    then have n: "nat (3 * E) = 3 * nat E"
      by simp
    from False c show ?thesis
      by (auto simp: empty_t_def zeros_opt_def empty_opt_def n and_then_def)
  qed
  with False show ?thesis
    by (simp add: mha_init_def Let_def)
qed

lemma mha_init_fails_iff:
  "isl (mha_init be allocatable rng E H bias add_bias_kv aza kd vd)
   \<longleftrightarrow> (H = 0 \<or> E \<le> 0 \<or> E mod H \<noteq> 0 \<or> (\<exists>k. kd = Some k \<and> k \<noteq> E)
        \<or> (\<exists>v. vd = Some v \<and> v \<noteq> E) \<or> aza
        \<or> \<not> allocatable [3 * nat E, nat E] \<or> \<not> allocatable [nat E, nat E]
        \<or> (bias \<and> (\<not> allocatable [3 * nat E] \<or> \<not> allocatable [nat E]))
        \<or> (add_bias_kv \<and> \<not> allocatable [1, 1, nat E]))"
  (is "?l \<longleftrightarrow> ?r")
proof
  assume l: ?l
  show ?r
  proof (rule ccontr)
    assume "\<not> ?r"
    then have f: "H \<noteq> 0" "0 < E" "E mod H = 0" "kd = None \<or> kd = Some E"
      "vd = None \<or> vd = Some E" "allocatable [3 * nat E, nat E]" "allocatable [nat E, nat E]"
      "bias \<Longrightarrow> allocatable [3 * nat E] \<and> allocatable [nat E]"
      "add_bias_kv \<Longrightarrow> allocatable [1, 1, nat E]"
      and "\<not> aza"
      by (cases kd; cases vd; auto)+
    from mha_init_succeeds [OF f, where be = be and rng = rng] \<open>\<not> aza\<close> l show False
      by simp
  qed
next
  assume ?r
  then show ?l
    by (rule mha_init_fails)
qed

text \<open>What \<^verbatim>\<open>__init__\<close> builds has the shapes of \<open>wf_module\<close>.\<close>

lemma mha_init_wf:
  assumes "mha_init be allocatable rng E H bias add_bias_kv aza kd vd = Inr m"
  shows "wf_module m \<and> embed_dim m = E \<and> num_heads m = H"
proof -
  from assms have "\<not> isl (mha_init be allocatable rng E H bias add_bias_kv aza kd vd)"
    by simp
  then have f: "H \<noteq> 0" "0 < E" "E mod H = 0" "kd = None \<or> kd = Some E"
    "vd = None \<or> vd = Some E" "allocatable [3 * nat E, nat E]" "allocatable [nat E, nat E]"
    "bias \<Longrightarrow> allocatable [3 * nat E] \<and> allocatable [nat E]"
    "add_bias_kv \<Longrightarrow> allocatable [1, 1, nat E]"
    and "\<not> aza"
    unfolding mha_init_fails_iff by (cases kd; cases vd; auto)+
  with mha_init_succeeds [OF f, where be = be and rng = rng] assms show ?thesis
    by (auto simp: wf_module_def div_times_eq_iff)
qed

text \<open>
  C6, as the code has it. Construction raises exactly when \<^verbatim>\<open>num_heads\<close> is 0,
  \<^verbatim>\<open>embed_dim\<close> is not positive, \<^verbatim>\<open>embed_dim\<close> is not divisible by
  \<^verbatim>\<open>num_heads\<close>, \<^verbatim>\<open>kdim\<close> or \<^verbatim>\<open>vdim\<close> is given and differs from
  \<^verbatim>\<open>embed_dim\<close>, \<^verbatim>\<open>add_zero_attn\<close> is set, or the library cannot allocate one of
  the parameter tensors: the input projection of shape \<open>(3 embed_dim, embed_dim)\<close>,
  the output projection of shape \<open>(embed_dim, embed_dim)\<close>, with \<^verbatim>\<open>bias\<close> the two
  biases of shapes \<open>(3 embed_dim)\<close> and \<open>(embed_dim)\<close>, with \<^verbatim>\<open>add_bias_kv\<close> the
  biases of shape \<open>(1, 1, embed_dim)\<close>. Otherwise it succeeds.
\<close>

theorem construction_fails_iff:
  "isl (mha_init be allocatable rng embed_dim' num_heads' bias add_bias_kv add_zero_attn'
          kdim' vdim')
   \<longleftrightarrow> (num_heads' = 0 \<or> embed_dim' \<le> 0 \<or> embed_dim' mod num_heads' \<noteq> 0
        \<or> (\<exists>k. kdim' = Some k \<and> k \<noteq> embed_dim')
        \<or> (\<exists>v. vdim' = Some v \<and> v \<noteq> embed_dim')
        \<or> add_zero_attn'
        \<or> \<not> allocatable [3 * nat embed_dim', nat embed_dim']
        \<or> \<not> allocatable [nat embed_dim', nat embed_dim']
        \<or> (bias \<and> (\<not> allocatable [3 * nat embed_dim'] \<or> \<not> allocatable [nat embed_dim']))
        \<or> (add_bias_kv \<and> \<not> allocatable [1, 1, nat embed_dim']))"
  by (rule mha_init_fails_iff)

theorem construction_fails_iff_witness:
  "isl (mha_init exact addressable (\<lambda>i. Num 0) 10 3 True False False None None)
   \<and> isl (mha_init exact addressable (\<lambda>i. Num 0) 4 2 True False False (Some 8) None)
   \<and> isl (mha_init exact addressable (\<lambda>i. Num 0) 2147483648 1 True False False None None)
   \<and> \<not> isl (mha_init exact addressable (\<lambda>i. Num 0) 4 2 True False False None None)"
  using construction_fails_iff
          [of exact addressable "\<lambda>i. Num 0" 10 3 True False False None None]
    construction_fails_iff
          [of exact addressable "\<lambda>i. Num 0" 4 2 True False False "Some 8" None]
    construction_fails_iff
          [of exact addressable "\<lambda>i. Num 0" 2147483648 1 True False False None None]
    construction_fails_iff
          [of exact addressable "\<lambda>i. Num 0" 4 2 True False False None None]
  by (simp add: addressable_def)

text \<open>
  C6, as the specification has it, fails: \<^verbatim>\<open>embed_dim = 4\<close> is divisible by
  \<^verbatim>\<open>num_heads = 2\<close> and neither \<^verbatim>\<open>kdim\<close> nor \<^verbatim>\<open>vdim\<close> is given, but with
  \<^verbatim>\<open>add_zero_attn=True\<close> the assertion of line 79 fails.
\<close>

theorem construction_add_zero_attn_counterexample:
  "(4::int) mod 2 = 0
   \<and> mha_init exact addressable (\<lambda>i. Num 0) 4 2 True False True None None
     = Inl AssertionError"
  by (simp add: mha_init_def empty_t_def zeros_opt_def empty_opt_def addressable_def)

text \<open>
  Sizes the library cannot allocate fail as well: \<^verbatim>\<open>embed_dim = 2147483648\<close> with
  one head passes every check of \<^verbatim>\<open>__init__\<close>, and \<^verbatim>\<open>torch.empty\<close> raises for
  the input projection.
\<close>

lemma construction_too_large:
  "mha_init exact addressable (\<lambda>i. Num 0) 2147483648 1 True False False None None
   = Inl RuntimeError"
  by (simp add: mha_init_def empty_t_def addressable_def)

section \<open>What a call reads and what it returns\<close>

lemma and_then_assoc: "and_then (and_then r f) g = and_then r (\<lambda>x. and_then (f x) g)"
  by (cases r) simp_all

lemma resolve_kv_ignores_mask:
  "resolve_kv m bsz k v static_kv (st\<lparr>prev_key_padding_mask := pm\<rparr>) n
   = resolve_kv m bsz k v static_kv st n"
  by (simp add: resolve_kv_def extend_history_def cong: option.case_cong if_cong)

lemma resolve_kv_no_mask:
  "resolve_kv m bsz k v static_kv st n = Inr (k', v', n', ns)
   \<Longrightarrow> prev_key_padding_mask ns = None"
  by (auto simp: resolve_kv_def and_then_Inr_iff empty_state_def split: option.splits if_splits)

text \<open>
  C10. In growing mode a call without \<^verbatim>\<open>key_padding_mask\<close> does the same, error or
  result, whatever mask \<open>pm\<close> the state has accumulated: no padding mask reaches the
  scores. The state it returns has no \<^verbatim>\<open>prev_key_padding_mask\<close>.
\<close>

theorem growing_call_without_mask_drops_history:
  "recurrent_forward m be query key val None attn_mask False (st\<lparr>prev_key_padding_mask := pm\<rparr>)
     = recurrent_forward m be query key val None attn_mask False
         (st\<lparr>prev_key_padding_mask := None\<rparr>)
   \<and> (\<forall>r. recurrent_forward m be query key val None attn_mask False
              (st\<lparr>prev_key_padding_mask := pm\<rparr>) = Inr r
          \<longrightarrow> prev_key_padding_mask (new_state r) = None)"
  by (auto simp: recurrent_forward_def resolve_kv_ignores_mask apply_key_padding_mask_def
        and_then_Inr_iff dest: resolve_kv_no_mask)

theorem growing_call_without_mask_drops_history_witness:
  "recurrent_forward tiny exact (steps [1]) (steps [1]) (steps [1]) None None False
     (padded_history\<lparr>prev_key_padding_mask := Some (pad_mask [True])\<rparr>) = Inr unmasked_result
   \<and> recurrent_forward tiny exact (steps [1]) (steps [1]) (steps [1]) None None False
       (padded_history\<lparr>prev_key_padding_mask := None\<rparr>) = Inr unmasked_result
   \<and> prev_key_padding_mask (new_state unmasked_result) = None"
  using growing_call_without_mask_drops_history
          [where m = tiny and be = exact and query = "steps [1]" and key = "steps [1]"
             and val = "steps [1]" and attn_mask = None and st = padded_history
             and pm = "Some (pad_mask [True])"]
  by (simp add: eval_defs)

text \<open>
  C8, as the code has it. In static mode with a populated cache the value argument and
  the contents of the key argument are ignored. The length of the key argument is read
  (line 196) and used only when a padding mask is given, to reshape the scores (lines
  275 and 281): two calls that differ only in key and value do the same, error or
  result, when the two keys have the same \<^verbatim>\<open>size(0)\<close>, or when there is no
  \<^verbatim>\<open>key_padding_mask\<close> and both keys have a dimension 0.
\<close>

theorem static_call_ignores_key_contents:
  assumes "static_key st = Some sk"
    and "size_dim key1 0 = size_dim key2 0
         \<or> (key_padding_mask = None \<and> shape key1 \<noteq> [] \<and> shape key2 \<noteq> [])"
  shows "recurrent_forward m be query key1 val1 key_padding_mask attn_mask True st
         = recurrent_forward m be query key2 val2 key_padding_mask attn_mask True st"
proof -
  define P where
    "P = and_then (project_qkv m be query key2 val2 True (Some sk)) (\<lambda>(q, _, _). Inr q)"
  define R where
    "R bsz = and_then (resolve_kv m bsz key2 val2 True st 0) (\<lambda>(k, v, _, ns). Inr (k, v, ns))"
    for bsz
  have P: "project_qkv m be query k v True (Some sk) = and_then P (\<lambda>q. Inr (q, k, v))"
    for k v
    by (simp add: P_def project_qkv_def and_then_def Let_def split: sum.splits prod.splits)
  have R: "resolve_kv m bsz k v True st n = and_then (R bsz) (\<lambda>(k, v, ns). Inr (k, v, n, ns))"
    for bsz k v n
    using assms(1)
    by (simp add: R_def resolve_kv_def and_then_def split: sum.splits option.splits)
  from assms(2) show ?thesis
  proof
    assume "size_dim key1 0 = size_dim key2 0"
    with assms(1) show ?thesis
      by (simp add: recurrent_forward_def P R and_then_assoc split_def)
  next
    assume "key_padding_mask = None \<and> shape key1 \<noteq> [] \<and> shape key2 \<noteq> []"
    then have n: "key_padding_mask = None" "size_dim key1 0 = Inr (shape key1 ! 0)"
      "size_dim key2 0 = Inr (shape key2 ! 0)"
      by (simp_all add: size_dim_def)
    with assms(1) show ?thesis
      by (simp add: recurrent_forward_def P R and_then_assoc split_def
            apply_key_padding_mask_def)
  qed
qed

theorem static_call_ignores_key_contents_witness:
  "static_key cached_source = Some \<lparr>shape = [1, 1, 1, 1], data = [Num 2]\<rparr>
   \<and> size_dim (steps [1]) 0 = size_dim (steps [7]) 0
   \<and> recurrent_forward tiny exact (steps [1]) (steps [1]) (steps [1])
        (Some (pad_mask [False])) None True cached_source
      = recurrent_forward tiny exact (steps [1]) (steps [7]) (steps [5, 6])
          (Some (pad_mask [False])) None True cached_source
   \<and> shape (steps [1]) \<noteq> [] \<and> shape (steps [7, 8]) \<noteq> []
   \<and> size_dim (steps [1]) 0 \<noteq> size_dim (steps [7, 8]) 0
   \<and> recurrent_forward tiny exact (steps [1]) (steps [1]) (steps [1]) None None True
        cached_source
      = recurrent_forward tiny exact (steps [1]) (steps [7, 8]) (steps [5, 6]) None None True
          cached_source"
  using static_call_ignores_key_contents
          [of cached_source "\<lparr>shape = [1, 1, 1, 1], data = [Num 2]\<rparr>" "steps [1]" "steps [7]"
              "Some (pad_mask [False])" tiny exact "steps [1]" "steps [1]" None "steps [5, 6]"]
    static_call_ignores_key_contents
          [of cached_source "\<lparr>shape = [1, 1, 1, 1], data = [Num 2]\<rparr>" "steps [1]"
              "steps [7, 8]" None tiny exact "steps [1]" "steps [1]" None "steps [5, 6]"]
  by (simp add: cached_source_def empty_state_def size_dim_def steps_def)

text \<open>
  C8, as the specification has it, fails. The cache holds a source of length 1. With a
  padding mask, the call with the key of length 1 returns and the call with a key of
  length 2 raises: the scores have one column and cannot be viewed with two.
\<close>

theorem static_call_reads_key_length_counterexample:
  "recurrent_forward tiny exact (steps [1]) (steps [1]) (steps [1])
     (Some (pad_mask [False])) None True cached_source
   = Inr \<lparr>attn = \<lparr>shape = [1, 1, 1], data = [Num 3]\<rparr>,
          attn_weights = \<lparr>shape = [1, 1, 1], data = [Num 2]\<rparr>,
          new_state = empty_state\<rparr>
   \<and> recurrent_forward tiny exact (steps [1]) (steps [1, 1]) (steps [1, 1])
       (Some (pad_mask [False])) None True cached_source
     = Inl RuntimeError"
  by (simp add: eval_defs)




section \<open>The cache entries a call returns\<close>

lemma apply_mask_static:
  "apply_key_padding_mask m be w kpm True pm ns bsz t s = Inr (w', ns') \<Longrightarrow> ns' = ns"
  by (auto simp: apply_key_padding_mask_def accumulate_mask_def and_then_Inr_iff
        split: option.splits)

lemma apply_mask_growing:
  "apply_key_padding_mask m be w kpm False pm ns bsz t s = Inr (w', ns')
   \<Longrightarrow> static_key ns' = static_key ns \<and> static_value ns' = static_value ns
       \<and> prev_key ns' = prev_key ns \<and> prev_value ns' = prev_value ns"
  by (auto simp: apply_key_padding_mask_def accumulate_mask_def and_then_Inr_iff
        split: option.splits)

lemma resolve_kv_static_fresh:
  "resolve_kv m bsz k v True st n = Inr (k', v', n', ns) \<Longrightarrow> static_key st = None
   \<Longrightarrow> static_key ns \<noteq> None \<and> static_value ns \<noteq> None
       \<and> prev_key ns = None \<and> prev_value ns = None"
  by (auto simp: resolve_kv_def and_then_Inr_iff empty_state_def)

lemma resolve_kv_static_cached:
  "resolve_kv m bsz k v True st n = Inr (k', v', n', ns) \<Longrightarrow> static_key st = Some sk
   \<Longrightarrow> ns = empty_state"
  by (auto simp: resolve_kv_def and_then_Inr_iff split: option.splits)

lemma resolve_kv_growing:
  "resolve_kv m bsz k v False st n = Inr (k', v', n', ns)
   \<Longrightarrow> static_key ns = None \<and> static_value ns = None
       \<and> prev_key ns \<noteq> None \<and> prev_value ns \<noteq> None"
  by (auto simp: resolve_kv_def and_then_Inr_iff empty_state_def)

text \<open>
  The three branches of lines 227-242. A static call that finds no cache returns the
  static entries (lines 233-235), and a growing call returns the history (lines
  240-242). A static call that finds the cache (lines 227-229) writes nothing to
  \<^verbatim>\<open>new_state\<close>: the dictionary it returns is empty.
\<close>

lemma call_static_fresh:
  assumes "call m be True x st = Inr r" and "static_key st = None"
  shows "static_key (new_state r) \<noteq> None \<and> static_value (new_state r) \<noteq> None
         \<and> prev_key (new_state r) = None \<and> prev_value (new_state r) = None"
  using assms
  by (auto simp: call_def recurrent_forward_def and_then_Inr_iff
        dest!: resolve_kv_static_fresh apply_mask_static)

lemma call_growing:
  assumes "call m be False x st = Inr r"
  shows "static_key (new_state r) = None \<and> static_value (new_state r) = None
         \<and> prev_key (new_state r) \<noteq> None \<and> prev_value (new_state r) \<noteq> None"
  using assms
  by (auto simp: call_def recurrent_forward_def and_then_Inr_iff
        dest!: resolve_kv_growing apply_mask_growing)

lemma call_static_cached:
  assumes "call m be True x st = Inr r" and "static_key st = Some sk"
  shows "new_state r = empty_state"
  using assms
  by (auto simp: call_def recurrent_forward_def and_then_Inr_iff
        dest!: resolve_kv_static_cached apply_mask_static)

lemma call_projecting: "call tiny exact True source_step empty_state = Inr projecting_result"
  by (simp add: eval_defs source_step_def projecting_result_def)

lemma call_reusing: "call tiny exact True source_step cached_source = Inr reusing_result"
  by (simp add: eval_defs source_step_def reusing_result_def)

text \<open>
  C9 at the input where the code leaves it. Two static-mode calls on the same source,
  from the empty state, the second on the state the first returned. The first returns
  the projected key and value as \<^verbatim>\<open>static_key\<close> and \<^verbatim>\<open>static_value\<close>; the second
  finds them, uses them, and returns the empty dictionary: in the state reached
  neither \<^verbatim>\<open>static_key\<close>/\<^verbatim>\<open>static_value\<close> nor \<^verbatim>\<open>prev_key\<close>/\<^verbatim>\<open>prev_value\<close>
  is populated.
\<close>

theorem threaded_static_calls_reach_empty_state:
  "decode_threaded tiny exact True empty_state [source_step, source_step]
   = Inr ([projecting_result, reusing_result], empty_state)
   \<and> static_key (new_state projecting_result) = Some \<lparr>shape = [1, 1, 1, 1], data = [Num 2]\<rparr>
   \<and> static_value (new_state projecting_result)
       = Some \<lparr>shape = [1, 1, 1, 1], data = [Num 3]\<rparr>
   \<and> static_key (empty_state :: xfloat decoding_state) = None
   \<and> static_value (empty_state :: xfloat decoding_state) = None
   \<and> prev_key (empty_state :: xfloat decoding_state) = None
   \<and> prev_value (empty_state :: xfloat decoding_state) = None"
  by (simp add: call_projecting call_reusing projecting_result_def reusing_result_def)
     (simp add: empty_state_def cached_source_def)

section \<open>The static cache over several calls\<close>

text \<open>
  A static call on the empty state projects the key and value it is given: with a
  source of 5 the cached key is \<open>2 * 5\<close> and the cached value \<open>3 * 5\<close>.
\<close>

lemma empty_state_call_projects_its_source:
  "call tiny exact True
     \<lparr>query_in = steps [1], key_in = steps [5], value_in = steps [5],
      key_padding_mask_in = None, attn_mask_in = None\<rparr> empty_state
   = Inr \<lparr>attn = \<lparr>shape = [1, 1, 1], data = [Num 15]\<rparr>,
          attn_weights = \<lparr>shape = [1, 1, 1], data = [Num 10]\<rparr>,
          new_state = empty_state\<lparr>static_key := Some \<lparr>shape = [1, 1, 1, 1], data = [Num 10]\<rparr>,
                                   static_value :=
                                     Some \<lparr>shape = [1, 1, 1, 1], data = [Num 15]\<rparr>\<rparr>\<rparr>"
  by (simp add: eval_defs)

text \<open>
  C2 at the input where the code leaves it. Three static-mode calls on the same
  source, from the empty state, each on the state the one before returned. The first
  projects key and value and returns them as \<^verbatim>\<open>static_key\<close> and
  \<^verbatim>\<open>static_value\<close>. The second uses them and returns the empty dictionary: the
  cached tensors are not in the state it returns. The third is therefore a call on
  the empty state again: it projects key and value a second time and returns them.
\<close>

theorem threaded_static_calls_project_again:
  "decode_threaded tiny exact True empty_state [source_step, source_step, source_step]
   = Inr ([projecting_result, reusing_result, projecting_result], cached_source)
   \<and> call tiny exact True source_step empty_state = Inr projecting_result
   \<and> new_state projecting_result = cached_source
   \<and> call tiny exact True source_step cached_source = Inr reusing_result
   \<and> new_state reusing_result = empty_state
   \<and> static_key (new_state reusing_result) = None
   \<and> static_value (new_state reusing_result) = None"
  by (simp add: call_projecting call_reusing projecting_result_def reusing_result_def)
     (simp add: empty_state_def)

section \<open>Concatenation\<close>

lemma concat_blocks_nth:
  "\<forall>b \<in> set bs. length b = n \<Longrightarrow> k < length bs \<Longrightarrow> take n (drop (k * n) (concat bs)) = bs ! k"
proof (induction bs arbitrary: k)
  case Nil
  then show ?case by simp
next
  case (Cons b bs)
  show ?case
  proof (cases k)
    case 0
    with Cons.prems show ?thesis by simp
  next
    case (Suc j)
    with Cons.prems have "take n (drop (j * n) (concat bs)) = bs ! j"
      by (intro Cons.IH) auto
    with Suc Cons.prems show ?thesis by simp
  qed
qed

lemma cat_Inr_iff:
  "cat (t # us) d = Inr c \<longleftrightarrow>
     d < length (shape t)
     \<and> (\<forall>u \<in> set us. length (shape u) = length (shape t) \<and> (shape u)[d := 0] = (shape t)[d := 0])
     \<and> c = \<lparr>shape = (shape t)[d := sum_list (map (\<lambda>u. shape u ! d) (t # us))],
             data = concat (map (\<lambda>k. concat (map (cat_slice d k) (t # us)))
                                    [0..<prod_list (take d (shape t))])\<rparr>"
  by (auto simp: cat_def list_ex_iff)

lemma compatible_take:
  "(xs::nat list)[d := 0] = ys[d := 0] \<Longrightarrow> take d xs = take d ys"
  by (metis order_refl take_update_cancel)

lemma compatible_drop:
  "(xs::nat list)[d := 0] = ys[d := 0] \<Longrightarrow> drop (Suc d) xs = drop (Suc d) ys"
  by (metis drop_update_cancel lessI)

lemma prod_split_at:
  "d < length xs \<Longrightarrow> prod_list (drop d xs) = xs ! d * prod_list (drop (Suc d) (xs::nat list))"
  by (simp add: Cons_nth_drop_Suc [symmetric])

lemma prod_take_drop: "prod_list (xs::nat list) = prod_list (take d xs) * prod_list (drop d xs)"
  by (metis append_take_drop_id prod_list.append)

lemma length_cat_slice:
  assumes "wf_tensor u" and "k < prod_list (take d (shape u))"
  shows "length (cat_slice d k u) = prod_list (drop d (shape u))"
proof -
  let ?c = "prod_list (drop d (shape u))"
  have "length (data u) = prod_list (take d (shape u)) * ?c"
    using assms(1) prod_take_drop [of "shape u" d] by (simp add: wf_tensor_def)
  moreover have "Suc k * ?c \<le> prod_list (take d (shape u)) * ?c"
    using assms(2) by (intro mult_le_mono1) simp
  ultimately show ?thesis
    by (simp add: cat_slice_def Let_def)
qed

lemma cat_slice_of_cat:
  assumes c: "cat (m0 # rest) d = Inr c" and wf: "\<forall>u \<in> set (m0 # rest). wf_tensor u"
    and k: "k < prod_list (take d (shape m0))"
  shows "cat_slice d k c = concat (map (cat_slice d k) (m0 # rest))"
proof -
  let ?ms = "m0 # rest"
  let ?outer = "prod_list (take d (shape m0))"
  let ?tail = "prod_list (drop (Suc d) (shape m0))"
  let ?S = "sum_list (map (\<lambda>u. shape u ! d) ?ms)"
  let ?B = "\<lambda>k. concat (map (cat_slice d k) ?ms)"
  from c have d: "d < length (shape m0)"
    and compat: "\<forall>u \<in> set rest. length (shape u) = length (shape m0) \<and> (shape u)[d := 0] = (shape m0)[d := 0]"
    and shape_c: "shape c = (shape m0)[d := ?S]"
    and data_c: "data c = concat (map ?B [0..<?outer])"
    by (simp_all add: cat_Inr_iff)
  have each: "length (shape u) = length (shape m0) \<and> take d (shape u) = take d (shape m0)
              \<and> drop (Suc d) (shape u) = drop (Suc d) (shape m0)" if "u \<in> set ?ms" for u
    using that compat by (auto dest: compatible_take compatible_drop)
  have len_slice: "length (cat_slice d j u) = shape u ! d * ?tail"
    if "u \<in> set ?ms" and "j < ?outer" for u j
  proof -
    from that wf each [OF that(1)] have "length (cat_slice d j u) = prod_list (drop d (shape u))"
      by (intro length_cat_slice) auto
    also have "\<dots> = shape u ! d * prod_list (drop (Suc d) (shape u))"
      using each [OF that(1)] d by (intro prod_split_at) simp
    finally show ?thesis using each [OF that(1)] by simp
  qed
  have len_B: "length (?B j) = ?S * ?tail" if "j < ?outer" for j
  proof -
    have "length (?B j) = sum_list (map (\<lambda>u. length (cat_slice d j u)) ?ms)"
      by (simp add: length_concat comp_def)
    also have "\<dots> = sum_list (map (\<lambda>u. shape u ! d * ?tail) ?ms)"
      using len_slice that by (intro arg_cong [where f = sum_list] map_cong) auto
    also have "\<dots> = ?S * ?tail"
      by (simp add: sum_list_mult_const distrib_right)
    finally show ?thesis .
  qed
  have cc: "prod_list (drop d (shape c)) = ?S * ?tail"
    using d by (simp add: shape_c drop_update_swap [of d d] Cons_nth_drop_Suc [symmetric] upd_conv_take_nth_drop)
  have "cat_slice d k c = take (?S * ?tail) (drop (k * (?S * ?tail)) (concat (map ?B [0..<?outer])))"
    by (simp add: cat_slice_def Let_def cc data_c)
  also have "\<dots> = map ?B [0..<?outer] ! k"
    using len_B k by (intro concat_blocks_nth) auto
  also have "\<dots> = ?B k"
    using k by simp
  finally show ?thesis .
qed

lemma cat_append_one:
  assumes c: "cat ms d = Inr c" and wf: "\<forall>u \<in> set ms. wf_tensor u"
  shows "cat [c, t] d = cat (ms @ [t]) d"
proof -
  from c obtain m0 rest where ms: "ms = m0 # rest"
    by (cases ms) (simp_all add: cat_def)
  let ?outer = "prod_list (take d (shape m0))"
  let ?S = "sum_list (map (\<lambda>u. shape u ! d) ms)"
  from c ms have d: "d < length (shape m0)"
    and compat: "\<forall>u \<in> set rest. length (shape u) = length (shape m0) \<and> (shape u)[d := 0] = (shape m0)[d := 0]"
    and shape_c: "shape c = (shape m0)[d := ?S]"
    by (simp_all add: cat_Inr_iff)
  have slices: "concat (map (cat_slice d k) [c, t]) = concat (map (cat_slice d k) (ms @ [t]))"
    if "k < ?outer" for k
    using cat_slice_of_cat [of m0 rest d c k] c wf ms that by simp
  have blocks: "map (\<lambda>k. concat (map (cat_slice d k) [c, t])) [0..<?outer]
                = map (\<lambda>k. concat (map (cat_slice d k) (ms @ [t]))) [0..<?outer]"
    using slices by (intro map_cong) auto
  show ?thesis
  proof (cases "length (shape t) = length (shape m0) \<and> (shape t)[d := 0] = (shape m0)[d := 0]")
    case True
    have "cat [c, t] d
          = Inr \<lparr>shape = (shape m0)[d := ?S + shape t ! d],
                 data = concat (map (\<lambda>k. concat (map (cat_slice d k) [c, t])) [0..<?outer])\<rparr>"
      using d shape_c True by (simp add: cat_def)
    moreover have "cat (ms @ [t]) d
          = Inr \<lparr>shape = (shape m0)[d := ?S + shape t ! d],
                 data = concat (map (\<lambda>k. concat (map (cat_slice d k) (ms @ [t]))) [0..<?outer])\<rparr>"
      using d compat True by (simp add: cat_def list_ex_iff ms add.assoc)
    ultimately show ?thesis
      by (simp only: blocks)
  next
    case False
    with d compat shape_c ms show ?thesis
      by (auto simp: cat_def list_ex_iff)
  qed
qed

lemma concat_consecutive_blocks:
  "concat (map (\<lambda>k. take c (drop (k * c) xs)) [0..<n]) = take (n * c) xs"
proof (induction n)
  case 0
  then show ?case by simp
next
  case (Suc n)
  have "take (n * c) xs @ take c (drop (n * c) xs) = take (n * c + c) xs"
    by (simp add: take_add)
  with Suc show ?case by (simp add: add.commute)
qed

lemma cat_single:
  assumes "wf_tensor t" and "d < length (shape t)"
  shows "cat [t] d = Inr t"
proof -
  have "length (data t) = prod_list (take d (shape t)) * prod_list (drop d (shape t))"
    using assms(1) prod_take_drop [of "shape t" d] by (simp add: wf_tensor_def)
  then have "concat (map (\<lambda>k. cat_slice d k t) [0..<prod_list (take d (shape t))]) = data t"
    by (simp add: cat_slice_def Let_def concat_consecutive_blocks)
  with assms(2) show ?thesis
    by (simp add: cat_def)
qed

section \<open>The accumulated padding mask\<close>

lemma accumulate_mask_growing:
  "accumulate_mask False pm mk ns = Inr (mk', ns') \<Longrightarrow>
     prev_key_padding_mask ns' = Some mk'
     \<and> (case pm of None \<Rightarrow> mk' = mk | Some p \<Rightarrow> cat [p, mk] 1 = Inr mk')"
  by (auto simp: accumulate_mask_def and_then_Inr_iff split: option.splits)

lemma call_growing_mask:
  assumes "call m be False x st = Inr r" and "key_padding_mask_in x = Some mk"
  shows "\<exists>c. prev_key_padding_mask (new_state r) = Some c
           \<and> (case prev_key_padding_mask st of None \<Rightarrow> c = mk | Some p \<Rightarrow> cat [p, mk] 1 = Inr c)"
  using assms
  by (auto simp: call_def recurrent_forward_def apply_key_padding_mask_def and_then_Inr_iff
        dest!: accumulate_mask_growing)

lemma decode_threaded_masks:
  assumes "decode_threaded m be False st xs = Inr (rs, st')"
    and "map key_padding_mask_in xs = map Some ms"
    and "\<forall>u \<in> set (ms0 @ ms). wf_tensor u \<and> 1 < length (shape u)"
    and "if ms0 = [] then prev_key_padding_mask st = None
         else \<exists>c0. cat ms0 1 = Inr c0 \<and> prev_key_padding_mask st = Some c0"
    and "ms0 @ ms \<noteq> []"
  shows "\<exists>c. cat (ms0 @ ms) 1 = Inr c \<and> prev_key_padding_mask st' = Some c"
  using assms
proof (induction xs arbitrary: st rs ms ms0)
  case Nil
  then show ?case by (auto split: if_splits)
next
  case (Cons x xs)
  from Cons.prems(2) obtain mk ms' where
    ms: "ms = mk # ms'" and mk: "key_padding_mask_in x = Some mk" and
    rest_masks: "map key_padding_mask_in xs = map Some ms'"
    by (cases ms) auto
  from Cons.prems(1) obtain r rs' where
    r: "call m be False x st = Inr r" and
    rest: "decode_threaded m be False (new_state r) xs = Inr (rs', st')"
    by (auto simp: and_then_Inr_iff)
  from call_growing_mask [OF r mk] obtain c where
    c: "prev_key_padding_mask (new_state r) = Some c" and
    c_is: "case prev_key_padding_mask st of None \<Rightarrow> c = mk | Some p \<Rightarrow> cat [p, mk] 1 = Inr c"
    by blast
  have "cat (ms0 @ [mk]) 1 = Inr c"
  proof (cases "ms0 = []")
    case True
    with Cons.prems(4) c_is have "c = mk" by simp
    moreover from Cons.prems(3) ms have "wf_tensor mk" "1 < length (shape mk)" by simp_all
    ultimately show ?thesis using True by (simp add: cat_single)
  next
    case False
    with Cons.prems(4) obtain c0 where c0: "cat ms0 1 = Inr c0" "prev_key_padding_mask st = Some c0"
      by auto
    with c_is have "cat [c0, mk] 1 = Inr c" by simp
    moreover from Cons.prems(3) have "\<forall>u \<in> set ms0. wf_tensor u" by simp
    ultimately show ?thesis using cat_append_one [OF c0(1), of mk] by simp
  qed
  with c have inv: "if ms0 @ [mk] = [] then prev_key_padding_mask (new_state r) = None
         else \<exists>c0. cat (ms0 @ [mk]) 1 = Inr c0 \<and> prev_key_padding_mask (new_state r) = Some c0"
    by simp
  from Cons.prems(3) ms have wf: "\<forall>u \<in> set ((ms0 @ [mk]) @ ms'). wf_tensor u \<and> 1 < length (shape u)"
    by simp
  from Cons.IH [OF rest rest_masks wf inv] ms show ?case by simp
qed

lemma masked_step1:
  "call tiny exact False (masked_step 1 False) empty_state
   = Inr (masked_result 3 [Num 0] [1] [False])"
  by (simp add: eval_defs masked_step_def masked_result_def tiny_history_def)

lemma masked_step2:
  "call tiny exact False (masked_step 2 True) (tiny_history [1] [False])
   = Inr (masked_result 3 [Num 0, NegInf] [1, 2] [False, True])"
  by (simp add: eval_defs masked_step_def masked_result_def tiny_history_def)

lemma masked_step3:
  "call tiny exact False (masked_step 3 False) (tiny_history [1, 2] [False, True])
   = Inr (masked_result 6 [Num 0, NegInf, Num 0] [1, 2, 3] [False, True, False])"
  by (simp add: eval_defs masked_step_def masked_result_def tiny_history_def)

text \<open>
  C3. In growing mode, take one or more calls, each with a padding mask and each
  passed the state the one before returned, the first one a state without a cached
  mask. If they all return, the \<^verbatim>\<open>prev_key_padding_mask\<close> of the last returned
  state is \<^verbatim>\<open>torch.cat\<close> of the masks of all calls, in call order, along dimension
  1. The masks are tensors of the library with at least two dimensions.
\<close>

theorem growing_mask_is_concatenation:
  assumes "decode_threaded m be False st xs = Inr (rs, st')"
    and "prev_key_padding_mask st = None"
    and "map key_padding_mask_in xs = map Some ms"
    and "xs \<noteq> []"
    and "\<forall>u \<in> set ms. wf_tensor u \<and> 1 < length (shape u)"
  shows "\<exists>c. cat ms 1 = Inr c \<and> prev_key_padding_mask st' = Some c"
proof -
  from assms(3,4) have "ms \<noteq> []"
    by auto
  with decode_threaded_masks [of m be st xs rs st' ms "[]"] assms show ?thesis
    by simp
qed

theorem growing_mask_is_concatenation_witness:
  "decode_threaded tiny exact False empty_state
     [masked_step 1 False, masked_step 2 True, masked_step 3 False]
   = Inr ([masked_result 3 [Num 0] [1] [False],
           masked_result 3 [Num 0, NegInf] [1, 2] [False, True],
           masked_result 6 [Num 0, NegInf, Num 0] [1, 2, 3] [False, True, False]],
          tiny_history [1, 2, 3] [False, True, False])
   \<and> prev_key_padding_mask (empty_state :: xfloat decoding_state) = None
   \<and> map key_padding_mask_in [masked_step 1 False, masked_step 2 True, masked_step 3 False]
       = map Some [pad_mask [False], pad_mask [True], pad_mask [False]]
   \<and> wf_tensor (pad_mask [False]) \<and> 1 < length (shape (pad_mask [False]))
   \<and> wf_tensor (pad_mask [True]) \<and> 1 < length (shape (pad_mask [True]))
   \<and> cat [pad_mask [False], pad_mask [True], pad_mask [False]] 1
       = Inr (pad_mask [False, True, False])"
proof -
  have run: "decode_threaded tiny exact False empty_state
               [masked_step 1 False, masked_step 2 True, masked_step 3 False]
             = Inr ([masked_result 3 [Num 0] [1] [False],
                     masked_result 3 [Num 0, NegInf] [1, 2] [False, True],
                     masked_result 6 [Num 0, NegInf, Num 0] [1, 2, 3] [False, True, False]],
                    tiny_history [1, 2, 3] [False, True, False])"
    by (simp add: masked_step1 masked_step2 masked_step3 masked_result_def)
  have none: "prev_key_padding_mask (empty_state :: xfloat decoding_state) = None"
    by (simp add: empty_state_def)
  have masks: "map key_padding_mask_in
                 [masked_step 1 False, masked_step 2 True, masked_step 3 False]
               = map Some [pad_mask [False], pad_mask [True], pad_mask [False]]"
    by (simp add: masked_step_def)
  have wf: "\<forall>u \<in> set [pad_mask [False], pad_mask [True], pad_mask [False]].
              wf_tensor u \<and> 1 < length (shape u)"
    by (simp add: pad_mask_def wf_tensor_def)
  from growing_mask_is_concatenation [OF run none masks _ wf]
  have "cat [pad_mask [False], pad_mask [True], pad_mask [False]] 1
        = Inr (pad_mask [False, True, False])"
    by (auto simp: tiny_history_def)
  with run none masks wf show ?thesis
    by simp
qed

section \<open>The length of the cached history\<close>

lemma view_shape:
  assumes "view sizes t = Inr t'"
  shows "shape t' = map (\<lambda>s. nat (if s = - 1 then int (prod_list (shape t)) div prod_list (filter (\<lambda>s. s \<noteq> - 1) sizes) else s)) sizes"
    and "list_ex (\<lambda>s. s = - 1) sizes \<Longrightarrow> prod_list (filter (\<lambda>s. s \<noteq> - 1) sizes) \<noteq> 0"
  using assms
  by (auto simp: view_def Let_def list_ex_iff split: if_splits)

lemma nat_div_exact: "0 < a \<Longrightarrow> nat ((int n * a) div a) = n"
  by simp

lemma split_heads_shape:
  assumes ok: "split_heads m bsz t = Inr t'"
    and h: "0 < num_heads m" and dd: "0 < head_dim m"
    and size: "prod_list (shape t) = n * (bsz * nat (num_heads m) * nat (head_dim m))"
  shows "shape t' = [bsz * nat (num_heads m), n, nat (head_dim m)]"
proof -
  from ok obtain t1 where
    v: "view [- 1, int bsz * num_heads m, head_dim m] t = Inr t1" and
    tr: "transpose_t 0 1 t1 = Inr t'"
    by (auto simp: split_heads_def and_then_Inr_iff)
  from h have nn: "0 \<le> int bsz * num_heads m" by simp
  then have ne: "int bsz * num_heads m \<noteq> - 1" by linarith
  from dd have ne': "head_dim m \<noteq> - 1" by linarith
  let ?p = "int bsz * num_heads m * head_dim m"
  from view_shape(2) [OF v] ne ne' have "?p \<noteq> 0" by simp
  with nn dd have p: "0 < ?p"
    by (metis less_le mult_nonneg_nonneg less_imp_le)
  have eq: "int (prod_list (shape t)) = int n * ?p"
    using h dd by (simp add: size)
  have "nat (int (prod_list (shape t)) div ?p) = n"
    unfolding eq by (rule nat_div_exact [OF p])
  with view_shape(1) [OF v] ne ne' h dd have "shape t1 = [n, bsz * nat (num_heads m), nat (head_dim m)]"
    by (simp add: nat_mult_distrib)
  with tr show ?thesis
    by (auto simp: transpose_t_def build_def swap_dims_def split: if_splits)
qed

lemma cached_heads_shape:
  assumes ok: "cached_heads m bsz t = Inr t'"
    and h: "0 < num_heads m" and dd: "0 < head_dim m"
    and size: "prod_list (shape t) = n * (bsz * nat (num_heads m) * nat (head_dim m))"
  shows "shape t' = [bsz * nat (num_heads m), n, nat (head_dim m)]"
proof -
  from ok have v: "view [int bsz * num_heads m, - 1, head_dim m] t = Inr t'"
    by (simp add: cached_heads_def)
  from h have nn: "0 \<le> int bsz * num_heads m" by simp
  then have ne: "int bsz * num_heads m \<noteq> - 1" by linarith
  from dd have ne': "head_dim m \<noteq> - 1" by linarith
  let ?p = "int bsz * num_heads m * head_dim m"
  from view_shape(2) [OF v] ne ne' have "?p \<noteq> 0" by simp
  with nn dd have p: "0 < ?p"
    by (metis less_le mult_nonneg_nonneg less_imp_le)
  have eq: "int (prod_list (shape t)) = int n * ?p"
    using h dd by (simp add: size)
  have "nat (int (prod_list (shape t)) div ?p) = n"
    unfolding eq by (rule nat_div_exact [OF p])
  with view_shape(1) [OF v] ne ne' h dd show ?thesis
    by (simp add: nat_mult_distrib)
qed

lemma state_heads_shape:
  assumes ok: "state_heads m bsz t = Inr t'"
    and h: "0 < num_heads m" and dd: "0 < head_dim m"
    and size: "prod_list (shape t) = n * (bsz * nat (num_heads m) * nat (head_dim m))"
  shows "shape t' = [bsz, nat (num_heads m), n, nat (head_dim m)]"
proof -
  from ok have v: "view [int bsz, num_heads m, - 1, head_dim m] t = Inr t'"
    by (simp add: state_heads_def)
  from h have ne: "num_heads m \<noteq> - 1" by linarith
  from dd have ne': "head_dim m \<noteq> - 1" by linarith
  let ?p = "int bsz * num_heads m * head_dim m"
  from view_shape(2) [OF v] ne ne' have "?p \<noteq> 0" by (simp add: mult.assoc)
  moreover from h dd have "0 \<le> ?p" by simp
  ultimately have p: "0 < ?p" by linarith
  have eq: "int (prod_list (shape t)) = int n * ?p"
    using h dd by (simp add: size)
  have "nat (int (prod_list (shape t)) div ?p) = n"
    unfolding eq by (rule nat_div_exact [OF p])
  with view_shape(1) [OF v] ne ne' h dd show ?thesis
    by (simp add: mult.assoc)
qed

lemma chunk3_shapes:
  assumes "chunk3 (Some w) = Inr (a, b, c)" and "shape w = [3 * e, e']" and "0 < e"
  shows "shape a = [e, e'] \<and> shape b = [e, e'] \<and> shape c = [e, e']"
proof -
  have A: "Suc (Suc (3 * e)) div 3 = e"
    by presburger
  have "3 * e + e - Suc 0 = (e - 1) + 3 * e"
    using assms(3) by simp
  moreover have "((e - 1) + 3 * e) div e = 3 + (e - 1) div e"
    using assms(3) by (intro div_mult_self1) simp
  ultimately have B: "(3 * e + e - Suc 0) div e = 3"
    using assms(3) by simp
  have B': "(4 * e - Suc 0) div e = 3"
    using B by (simp add: algebra_simps)
  have C: "[0..<3] = [0, 1, 2]"
    by (simp add: upt_rec)
  from assms show ?thesis
    by (auto simp: chunk3_def chunk_def Let_def A B B' C)
qed

lemma linear_shape:
  "linear_t be x w b = Inr y \<Longrightarrow> shape y = butlast (shape x) @ [shape w ! 0]"
  by (auto simp: linear_t_def build_def split: if_splits)

lemma project_qkv_growing_shapes:
  assumes "project_qkv m be q k v False sk = Inr (q', k', v')" and "wf_module m"
  shows "shape k' = butlast (shape k) @ [nat (embed_dim m)]
         \<and> shape v' = butlast (shape v) @ [nat (embed_dim m)]"
proof -
  from assms(2) have w: "shape (in_proj_weight m) = [3 * nat (embed_dim m), nat (embed_dim m)]"
    and e: "0 < nat (embed_dim m)"
    by (simp_all add: wf_module_def)
  from assms(1) obtain q_w k_w v_w q_b k_b v_b where
    c: "chunk3 (Some (in_proj_weight m)) = Inr (q_w, k_w, v_w)" and
    k': "linear_t be k k_w (Some k_b) = Inr k'" and
    v': "linear_t be v v_w (Some v_b) = Inr v'"
    by (auto simp: project_qkv_def and_then_Inr_iff Let_def split: if_splits)
  from chunk3_shapes [OF c w e] linear_shape [OF k'] linear_shape [OF v'] show ?thesis
    by simp
qed

lemma extend_history_shapes:
  assumes ok: "extend_history m bsz st kh vh src = Inr (k', v', src')"
    and h: "0 < num_heads m" and dd: "0 < head_dim m"
    and kh: "shape kh = [bsz * nat (num_heads m), 1, nat (head_dim m)]"
    and vh: "shape vh = [bsz * nat (num_heads m), 1, nat (head_dim m)]"
    and ck: "cached_shape m bsz n (prev_key st)"
    and cv: "cached_shape m bsz n (prev_value st)"
  shows "shape k' = [bsz * nat (num_heads m), Suc n, nat (head_dim m)]
         \<and> shape v' = [bsz * nat (num_heads m), Suc n, nat (head_dim m)]"
proof (cases "prev_key st")
  case None
  with ok ck kh vh show ?thesis
    by (simp add: extend_history_def cached_shape_def)
next
  case (Some pk)
  with ok obtain pk' pv pv' where
    pk': "cached_heads m bsz pk = Inr pk'" and
    k': "cat [pk', kh] 1 = Inr k'" and
    pv: "prev_value st = Some pv" and
    pv': "cached_heads m bsz pv = Inr pv'" and
    v': "cat [pv', vh] 1 = Inr v'"
    by (auto simp: extend_history_def and_then_Inr_iff split: option.splits)
  from ck Some have "prod_list (shape pk) = n * (bsz * nat (num_heads m) * nat (head_dim m))"
    by (simp add: cached_shape_def)
  from cached_heads_shape [OF pk' h dd this]
  have spk: "shape pk' = [bsz * nat (num_heads m), n, nat (head_dim m)]" .
  from cv pv have "prod_list (shape pv) = n * (bsz * nat (num_heads m) * nat (head_dim m))"
    by (simp add: cached_shape_def)
  from cached_heads_shape [OF pv' h dd this]
  have spv: "shape pv' = [bsz * nat (num_heads m), n, nat (head_dim m)]" .
  from k' v' spk spv kh vh show ?thesis
    by (simp add: cat_Inr_iff)
qed

lemma resolve_kv_growing_shapes:
  assumes ok: "resolve_kv m bsz k v False st src = Inr (k', v', src', ns)"
    and h: "0 < num_heads m" and dd: "0 < head_dim m"
    and k: "prod_list (shape k) = bsz * nat (num_heads m) * nat (head_dim m)"
    and v: "prod_list (shape v) = bsz * nat (num_heads m) * nat (head_dim m)"
    and ck: "cached_shape m bsz n (prev_key st)"
    and cv: "cached_shape m bsz n (prev_value st)"
  shows "\<exists>pk pv. prev_key ns = Some pk \<and> prev_value ns = Some pv
           \<and> shape pk = [bsz, nat (num_heads m), Suc n, nat (head_dim m)]
           \<and> shape pv = [bsz, nat (num_heads m), Suc n, nat (head_dim m)]"
proof -
  from ok obtain kh vh k1 v1 n1 pk pv where
    kh: "split_heads m bsz k = Inr kh" and vh: "split_heads m bsz v = Inr vh" and
    ext: "extend_history m bsz st kh vh src = Inr (k1, v1, n1)" and
    pk: "state_heads m bsz k1 = Inr pk" and pv: "state_heads m bsz v1 = Inr pv" and
    ns: "ns = empty_state\<lparr>prev_key := Some pk, prev_value := Some pv\<rparr>"
    by (auto simp: resolve_kv_def and_then_Inr_iff)
  from k have "prod_list (shape k) = 1 * (bsz * nat (num_heads m) * nat (head_dim m))" by simp
  from split_heads_shape [OF kh h dd this]
  have skh: "shape kh = [bsz * nat (num_heads m), 1, nat (head_dim m)]" .
  from v have "prod_list (shape v) = 1 * (bsz * nat (num_heads m) * nat (head_dim m))" by simp
  from split_heads_shape [OF vh h dd this]
  have svh: "shape vh = [bsz * nat (num_heads m), 1, nat (head_dim m)]" .
  from extend_history_shapes [OF ext h dd skh svh ck cv]
  have s1: "shape k1 = [bsz * nat (num_heads m), Suc n, nat (head_dim m)]"
    "shape v1 = [bsz * nat (num_heads m), Suc n, nat (head_dim m)]"
    by simp_all
  from s1 have "prod_list (shape k1) = Suc n * (bsz * nat (num_heads m) * nat (head_dim m))"
    by (simp add: algebra_simps)
  from state_heads_shape [OF pk h dd this]
  have spk: "shape pk = [bsz, nat (num_heads m), Suc n, nat (head_dim m)]" .
  from s1 have "prod_list (shape v1) = Suc n * (bsz * nat (num_heads m) * nat (head_dim m))"
    by (simp add: algebra_simps)
  from state_heads_shape [OF pv h dd this]
  have spv: "shape pv = [bsz, nat (num_heads m), Suc n, nat (head_dim m)]" .
  from ns spk spv show ?thesis by simp
qed

lemma and_then_weak_cong: "r = r' \<Longrightarrow> and_then r f = and_then r' f"
  by simp

lemmas eval4 = four_def vec4_def history4_def result4_def

lemma four_step1:
  "recurrent_forward four exact (vec4 0) (vec4 1) (vec4 1) None None False empty_state
   = Inr (result4 4 [1])"
  by (simp add: eval_defs eval4 cong: and_then_weak_cong)

lemma four_step2:
  "recurrent_forward four exact (vec4 0) (vec4 2) (vec4 2) None None False (history4 [1])
   = Inr (result4 6 [1, 2])"
  by (simp add: eval_defs eval4 cong: and_then_weak_cong)

lemma four_step3:
  "recurrent_forward four exact (vec4 0) (vec4 3) (vec4 3) None None False (history4 [1, 2])
   = Inr (result4 8 [1, 2, 3])"
  by (simp add: eval_defs eval4 cong: and_then_weak_cong)

text \<open>
  C4. Take a growing-mode call on a module with the shapes \<^verbatim>\<open>__init__\<close> sets and a
  positive number of heads, with a key and a value of one time step and the batch size
  of the query, and a \<^verbatim>\<open>prev_state\<close> whose \<^verbatim>\<open>prev_key\<close> and \<^verbatim>\<open>prev_value\<close>
  hold \<open>n\<close> positions (they are absent for \<open>n = 0\<close>). If the call returns, the
  \<^verbatim>\<open>prev_key\<close> and \<^verbatim>\<open>prev_value\<close> of the returned state are present and hold
  \<open>n + 1\<close> positions.
\<close>

theorem growing_history_grows_by_one:
  assumes ok: "recurrent_forward m be query key val key_padding_mask attn_mask False st = Inr r"
    and wf: "wf_module m" and h: "0 < num_heads m"
    and q: "shape query = [tgt_len, bsz, e]"
    and k: "shape key = [1, bsz, ek]" and v: "shape val = [1, bsz, ev]"
    and ck: "cached_shape m bsz n (prev_key st)"
    and cv: "cached_shape m bsz n (prev_value st)"
  shows "prev_key (new_state r) \<noteq> None \<and> prev_value (new_state r) \<noteq> None
         \<and> cached_shape m bsz (Suc n) (prev_key (new_state r))
         \<and> cached_shape m bsz (Suc n) (prev_value (new_state r))"
proof -
  from wf h have dd: "0 < head_dim m"
    by (metis wf_module_def zero_less_mult_pos2)
  from wf h dd have E: "nat (embed_dim m) = nat (num_heads m) * nat (head_dim m)"
    by (metis wf_module_def mult.commute nat_mult_distrib less_imp_le)
  from q have sz: "size3 query = Inr (tgt_len, bsz, e)"
    by (simp add: size3_def)
  from ok sz obtain src q1 k1 v1 k2 v2 src2 ns w w' where
    proj: "project_qkv m be query key val False (static_key st) = Inr (q1, k1, v1)" and
    res: "resolve_kv m bsz k1 v1 False st src = Inr (k2, v2, src2, ns)" and
    msk: "apply_key_padding_mask m be w key_padding_mask False (prev_key_padding_mask st) ns
            bsz tgt_len src2
          = Inr (w', new_state r)"
    by (auto simp: recurrent_forward_def and_then_Inr_iff)
  from project_qkv_growing_shapes [OF proj wf] k v E
  have "prod_list (shape k1) = bsz * nat (num_heads m) * nat (head_dim m)"
    "prod_list (shape v1) = bsz * nat (num_heads m) * nat (head_dim m)"
    by (simp_all add: mult.assoc)
  from resolve_kv_growing_shapes [OF res h dd this ck cv] apply_mask_growing [OF msk]
  show ?thesis
    by (auto simp: cached_shape_def)
qed

theorem growing_history_grows_by_one_witness:
  "recurrent_forward four exact (vec4 0) (vec4 1) (vec4 1) None None False empty_state
   = Inr (result4 4 [1])
   \<and> recurrent_forward four exact (vec4 0) (vec4 2) (vec4 2) None None False (history4 [1])
     = Inr (result4 6 [1, 2])
   \<and> recurrent_forward four exact (vec4 0) (vec4 3) (vec4 3) None None False (history4 [1, 2])
     = Inr (result4 8 [1, 2, 3])
   \<and> wf_module four \<and> 0 < num_heads four
   \<and> cached_shape four 1 0 (prev_key (empty_state :: xfloat decoding_state))
   \<and> cached_shape four 1 0 (prev_value (empty_state :: xfloat decoding_state))
   \<and> cached_shape four 1 1 (prev_key (history4 [1]))
   \<and> cached_shape four 1 1 (prev_value (history4 [1]))
   \<and> cached_shape four 1 2 (prev_key (history4 [1, 2]))
   \<and> cached_shape four 1 2 (prev_value (history4 [1, 2]))
   \<and> cached_shape four 1 3 (prev_key (history4 [1, 2, 3]))
   \<and> cached_shape four 1 3 (prev_value (history4 [1, 2, 3]))"
proof -
  have wf: "wf_module four" and h: "0 < num_heads four"
    by (simp_all add: wf_module_def four_def)
  have s: "shape (vec4 x) = [1, 1, 4]" for x
    by (simp add: vec4_def)
  have c0: "cached_shape four 1 0 (prev_key (empty_state :: xfloat decoding_state))"
    "cached_shape four 1 0 (prev_value (empty_state :: xfloat decoding_state))"
    by (simp_all add: cached_shape_def empty_state_def)
  from growing_history_grows_by_one [OF four_step1 wf h s s s c0]
  have c1: "cached_shape four 1 1 (prev_key (history4 [1]))"
    "cached_shape four 1 1 (prev_value (history4 [1]))"
    by (simp_all add: result4_def)
  from growing_history_grows_by_one [OF four_step2 wf h s s s c1]
  have c2: "cached_shape four 1 2 (prev_key (history4 [1, 2]))"
    "cached_shape four 1 2 (prev_value (history4 [1, 2]))"
    by (simp_all add: result4_def numeral_2_eq_2)
  from growing_history_grows_by_one [OF four_step3 wf h s s s c2]
  have c3: "cached_shape four 1 3 (prev_key (history4 [1, 2, 3]))"
    "cached_shape four 1 3 (prev_value (history4 [1, 2, 3]))"
    by (simp_all add: result4_def numeral_3_eq_3)
  from four_step1 four_step2 four_step3 wf h c0 c1 c2 c3 show ?thesis
    by blast
qed

end
